theory Spec2Isabelle
  imports Complex_Main "HOL-Library.AList"
begin

section \<open>Python values, errors and ctypes fields\<close>

text \<open>
  The values that reach a configuration structure of \<^verbatim>\<open>flann_ctypes.py\<close>: \<^verbatim>\<open>None\<close>,
  strings, integers (unbounded) and floats. A float is carried by the rational it
  denotes; what a C float keeps of it belongs to the platform (see \<open>abi\<close> below).
\<close>

datatype pyval = PNone | PStr string | PInt int | PFloat rat

datatype error =
    KeyError string
  | TypeError
  | AttributeError string
  | ValueError
  | OSError

text \<open>The C types of the fields of \<^verbatim>\<open>FLANNParameters._fields_\<close>.\<close>

datatype ctype = c_int | c_uint | c_long | c_float

text \<open>
  What the source leaves to the platform: the width of a C \<^verbatim>\<open>long\<close>, and what assigning
  a Python value to a \<^verbatim>\<open>c_float\<close> field stores (the value read back, or the error).
\<close>

record abi =
  long_bits :: nat
  float_set :: "pyval \<Rightarrow> error + pyval"

text \<open>Two's complement value of \<open>n\<close> in \<open>w\<close> bits: ctypes does no overflow check.\<close>

definition swrap :: "nat \<Rightarrow> int \<Rightarrow> int" where
  "swrap w n = (n + 2 ^ (w - 1)) mod 2 ^ w - 2 ^ (w - 1)"

text \<open>
  Assigning a Python value to a ctypes field of the given type: the value that the
  field then reads back, or the \<^verbatim>\<open>TypeError\<close> of ctypes for a value that is no integer.
\<close>

fun c_set :: "abi \<Rightarrow> ctype \<Rightarrow> pyval \<Rightarrow> error + pyval" where
  "c_set A c_int (PInt n) = Inr (PInt (swrap 32 n))"
| "c_set A c_uint (PInt n) = Inr (PInt (n mod 2 ^ 32))"
| "c_set A c_long (PInt n) = Inr (PInt (swrap (long_bits A) n))"
| "c_set A c_float v = float_set A v"
| "c_set A t v = Inl TypeError"

fun c_zero :: "ctype \<Rightarrow> pyval" where
  "c_zero c_float = PFloat 0"
| "c_zero t = PInt 0"

section \<open>CustomStructure\<close>

text \<open>
  A structure carries the class attributes \<^verbatim>\<open>_fields_\<close>, \<^verbatim>\<open>_defaults_\<close> and
  \<^verbatim>\<open>_translation_\<close> (dictionaries as association lists in iteration order), the
  list \<^verbatim>\<open>__field_names\<close> computed by \<^verbatim>\<open>__init__\<close>, and its attribute values.
  A key is a string: the source concatenates it to the message of its \<^verbatim>\<open>KeyError\<close>.
\<close>

record cstruct =
  struct_fields :: "(string \<times> ctype) list"
  struct_defaults :: "(string \<times> pyval) list"
  struct_translation :: "(string \<times> (string \<times> int) list) list"
  field_names :: "string list"
  mem :: "string \<rightharpoonup> pyval"

text \<open>
  \<^verbatim>\<open>setattr(self, k, v)\<close>: a ctypes field converts the value, any other name is a plain
  Python attribute. \<^verbatim>\<open>getattr(self, k)\<close> raises for a name that was never set.
\<close>

definition setattr :: "abi \<Rightarrow> cstruct \<Rightarrow> string \<Rightarrow> pyval \<Rightarrow> error + cstruct" where
  "setattr A s k v =
     (case map_of (struct_fields s) k of
        Some t \<Rightarrow>
          (case c_set A t v of
             Inl e \<Rightarrow> Inl e
           | Inr c \<Rightarrow> Inr (s\<lparr>mem := (mem s)(k \<mapsto> c)\<rparr>))
      | None \<Rightarrow> Inr (s\<lparr>mem := (mem s)(k \<mapsto> v)\<rparr>))"

definition getattr :: "cstruct \<Rightarrow> string \<Rightarrow> error + pyval" where
  "getattr s k = (case mem s k of Some v \<Rightarrow> Inr v | None \<Rightarrow> Inl (AttributeError k))"

text \<open>\<^verbatim>\<open>__translate\<close>: a value that is a key of the field's table becomes its code,
  every other value is returned as it is.\<close>

definition translate :: "cstruct \<Rightarrow> string \<Rightarrow> pyval \<Rightarrow> pyval" where
  "translate s k v =
     (case map_of (struct_translation s) k of
        Some tbl \<Rightarrow>
          (case v of
             PStr x \<Rightarrow> (case map_of tbl x of Some c \<Rightarrow> PInt c | None \<Rightarrow> v)
           | _ \<Rightarrow> v)
      | None \<Rightarrow> v)"

text \<open>Python's \<^verbatim>\<open>tv == v\<close> for an integer code \<open>tv\<close>.\<close>

fun code_eq :: "int \<Rightarrow> pyval \<Rightarrow> bool" where
  "code_eq tv (PInt n) = (tv = n)"
| "code_eq tv (PFloat x) = (of_int tv = x)"
| "code_eq tv v = False"

text \<open>The loop of \<^verbatim>\<open>__translate_back\<close>: the first name of the table whose code is \<open>v\<close>.\<close>

fun find_back :: "(string \<times> int) list \<Rightarrow> pyval \<Rightarrow> string option" where
  "find_back [] v = None"
| "find_back ((tk, tv) # rest) v = (if code_eq tv v then Some tk else find_back rest v)"

definition translate_back :: "cstruct \<Rightarrow> string \<Rightarrow> pyval \<Rightarrow> pyval" where
  "translate_back s k v =
     (case map_of (struct_translation s) k of
        Some tbl \<Rightarrow> (case find_back tbl v of Some tk \<Rightarrow> PStr tk | None \<Rightarrow> v)
      | None \<Rightarrow> v)"

text \<open>
  \<^verbatim>\<open>__setitem__\<close> and \<^verbatim>\<open>update\<close> change the structure in place; an exception leaves
  it as it was when raised, so the error is returned with that structure.
\<close>

definition setitem :: "abi \<Rightarrow> cstruct \<Rightarrow> string \<Rightarrow> pyval \<Rightarrow> (error \<times> cstruct) + cstruct" where
  "setitem A s k v =
     (if k \<in> set (field_names s) then
        (case setattr A s k (translate s k v) of
           Inl e \<Rightarrow> Inl (e, s)
         | Inr s' \<Rightarrow> Inr s')
      else Inl (KeyError (''No such member: '' @ k), s))"

fun update :: "abi \<Rightarrow> cstruct \<Rightarrow> (string \<times> pyval) list \<Rightarrow> (error \<times> cstruct) + cstruct" where
  "update A s [] = Inr s"
| "update A s ((k, v) # d) =
     (if k \<in> set (field_names s) then
        (case setattr A s k (translate s k v) of
           Inl e \<Rightarrow> Inl (e, s)
         | Inr s' \<Rightarrow> update A s' d)
      else Inl (KeyError (''No such member: '' @ k), s))"

definition getitem :: "cstruct \<Rightarrow> string \<Rightarrow> error + pyval" where
  "getitem s k =
     (if k \<in> set (field_names s) then
        (case getattr s k of
           Inl e \<Rightarrow> Inl e
         | Inr v \<Rightarrow> Inr (translate_back s k v))
      else Inr PNone)"

definition keys :: "cstruct \<Rightarrow> string list" where
  "keys s = field_names s"

text \<open>\<^verbatim>\<open>Structure.__init__\<close> zero-fills the fields; \<^verbatim>\<open>CustomStructure.__init__\<close> then
  records the field names and applies the defaults.\<close>

definition Structure_init :: "cstruct \<Rightarrow> cstruct" where
  "Structure_init cls = cls\<lparr>mem := map_of (map (\<lambda>(f, t). (f, c_zero t)) (struct_fields cls))\<rparr>"

definition CustomStructure_init :: "abi \<Rightarrow> cstruct \<Rightarrow> (error \<times> cstruct) + cstruct" where
  "CustomStructure_init A cls =
     update A ((Structure_init cls)\<lparr>field_names := map fst (struct_fields cls)\<rparr>) (struct_defaults cls)"

section \<open>FLANNParameters\<close>

definition FLANNParameters_fields :: "(string \<times> ctype) list" where
  "FLANNParameters_fields =
    [(''algorithm'', c_int),
     (''checks'', c_int),
     (''eps'', c_float),
     (''sorted'', c_int),
     (''max_neighbors'', c_int),
     (''cores'', c_int),
     (''trees'', c_int),
     (''leaf_max_size'', c_int),
     (''branching'', c_int),
     (''iterations'', c_int),
     (''centers_init'', c_int),
     (''cb_index'', c_float),
     (''target_precision'', c_float),
     (''build_weight'', c_float),
     (''memory_weight'', c_float),
     (''sample_fraction'', c_float),
     (''table_number_'', c_uint),
     (''key_size_'', c_uint),
     (''multi_probe_level_'', c_uint),
     (''log_level'', c_int),
     (''random_seed'', c_long)]"

definition FLANNParameters_defaults :: "(string \<times> pyval) list" where
  "FLANNParameters_defaults =
    [(''algorithm'', PStr ''kdtree''),
     (''checks'', PInt 32),
     (''eps'', PFloat 0),
     (''sorted'', PInt 1),
     (''max_neighbors'', PInt (- 1)),
     (''cores'', PInt 0),
     (''trees'', PInt 1),
     (''leaf_max_size'', PInt 4),
     (''branching'', PInt 32),
     (''iterations'', PInt 5),
     (''centers_init'', PStr ''random''),
     (''cb_index'', PFloat (1 / 2)),
     (''target_precision'', PFloat (9 / 10)),
     (''build_weight'', PFloat (1 / 100)),
     (''memory_weight'', PFloat 0),
     (''sample_fraction'', PFloat (1 / 10)),
     (''table_number_'', PInt 12),
     (''key_size_'', PInt 20),
     (''multi_probe_level_'', PInt 2),
     (''log_level'', PStr ''warning''),
     (''random_seed'', PInt (- 1))]"

definition algorithm_table :: "(string \<times> int) list" where
  "algorithm_table =
    [(''linear'', 0),
     (''kdtree'', 1),
     (''kmeans'', 2),
     (''composite'', 3),
     (''kdtree_single'', 4),
     (''hierarchical'', 5),
     (''lsh'', 6),
     (''saved'', 254),
     (''autotuned'', 255),
     (''default'', 1)]"

definition centers_init_table :: "(string \<times> int) list" where
  "centers_init_table = [(''random'', 0), (''gonzales'', 1), (''kmeanspp'', 2), (''default'', 0)]"

definition log_level_table :: "(string \<times> int) list" where
  "log_level_table =
    [(''none'', 0),
     (''fatal'', 1),
     (''error'', 2),
     (''warning'', 3),
     (''info'', 4),
     (''default'', 2)]"

definition FLANNParameters_translation :: "(string \<times> (string \<times> int) list) list" where
  "FLANNParameters_translation =
    [(''algorithm'', algorithm_table),
     (''centers_init'', centers_init_table),
     (''log_level'', log_level_table)]"

text \<open>The class, before any instance exists: no field names yet, no attribute set.\<close>

definition FLANNParameters :: cstruct where
  "FLANNParameters =
     \<lparr>struct_fields = FLANNParameters_fields,
      struct_defaults = FLANNParameters_defaults,
      struct_translation = FLANNParameters_translation,
      field_names = [],
      mem = Map.empty\<rparr>"

text \<open>An instance of \<^verbatim>\<open>FLANNParameters\<close> whose attributes hold \<open>m\<close>.\<close>

definition FLANNParameters_inst :: "(string \<rightharpoonup> pyval) \<Rightarrow> cstruct" where
  "FLANNParameters_inst m =
     FLANNParameters\<lparr>field_names := map fst FLANNParameters_fields, mem := m\<rparr>"

text \<open>
  A platform to run the model on: \<^verbatim>\<open>long\<close> has 64 bits, and a C float keeps the
  assigned number as it is (rounding to single precision is not modelled; no statement
  below reads a float field).
\<close>

definition float_set_exact :: "pyval \<Rightarrow> error + pyval" where
  "float_set_exact v =
     (case v of
        PInt n \<Rightarrow> Inr (PFloat (of_int n))
      | PFloat x \<Rightarrow> Inr (PFloat x)
      | _ \<Rightarrow> Inl TypeError)"

definition abi_lp64 :: abi where
  "abi_lp64 = \<lparr>long_bits = 64, float_set = float_set_exact\<rparr>"

text \<open>The memory of \<^verbatim>\<open>FLANNParameters()\<close> on that platform: every field at its default.\<close>

definition default_mem :: "string \<rightharpoonup> pyval" where
  "default_mem =
     map_of
      [(''algorithm'', PInt 1),
       (''checks'', PInt 32),
       (''eps'', PFloat 0),
       (''sorted'', PInt 1),
       (''max_neighbors'', PInt (- 1)),
       (''cores'', PInt 0),
       (''trees'', PInt 1),
       (''leaf_max_size'', PInt 4),
       (''branching'', PInt 32),
       (''iterations'', PInt 5),
       (''centers_init'', PInt 0),
       (''cb_index'', PFloat (1 / 2)),
       (''target_precision'', PFloat (9 / 10)),
       (''build_weight'', PFloat (1 / 100)),
       (''memory_weight'', PFloat 0),
       (''sample_fraction'', PFloat (1 / 10)),
       (''table_number_'', PInt 12),
       (''key_size_'', PInt 20),
       (''multi_probe_level_'', PInt 2),
       (''log_level'', PInt 3),
       (''random_seed'', PInt (- 1))]"

section \<open>Loading the native library\<close>

text \<open>
  A path is a list of components below the file system root (what \<^verbatim>\<open>join\<close>,
  \<^verbatim>\<open>normpath\<close> and \<^verbatim>\<open>dirname\<close> work on), or a bare library name left to the dynamic
  loader. A loaded library is known by its path and the symbols it exports.
\<close>

datatype path = AbsPath "string list" | LibName string

record lib =
  lib_path :: path
  exports :: "string \<Rightarrow> bool"

text \<open>
  What \<^verbatim>\<open>load_flann_library\<close> reads from its surroundings: \<^verbatim>\<open>sys.argv\<close>,
  \<^verbatim>\<open>sys.platform\<close>, \<^verbatim>\<open>sys.version\<close>, whether \<^verbatim>\<open>sys\<close> has \<^verbatim>\<open>gettotalrefcount\<close>, the result
  of \<^verbatim>\<open>distutils.util.get_platform()\<close> (\<open>None\<close> when it raises), the directory of the
  module file, \<^verbatim>\<open>os.path.exists\<close>, and \<^verbatim>\<open>cdll[path]\<close> (the exception it raises, or the
  symbols of the library it loads).
\<close>

record env =
  argv :: "string list"
  platform :: string
  version :: string
  gettotalrefcount :: bool
  get_platform :: "string option"
  file_dir :: "string list"
  exists :: "path \<Rightarrow> bool"
  cdll :: "path \<Rightarrow> error + (string \<Rightarrow> bool)"

text \<open>What the function prints, and the warning it issues (under the default warning
  filter, where \<^verbatim>\<open>warnings.warn\<close> returns).\<close>

datatype event =
    Print_Loading
  | Print_Trying path
  | Print_exists_CDLL_error
  | Print_does_not_exist
  | Print_exists
  | Print_fallback string
  | Print_Using path
  | Warn string

definition verbose :: "env \<Rightarrow> bool" where
  "verbose E =
     (''--verbose'' \<in> set (argv E) \<or> ''--veryverbose'' \<in> set (argv E) \<or>
      ''--very-verbose'' \<in> set (argv E) \<or> ''--verbflann'' \<in> set (argv E) \<or>
      ''--verb-flann'' \<in> set (argv E))"

definition possible_libnames :: "env \<Rightarrow> string list" where
  "possible_libnames E =
     (if platform E = ''win32'' then [''flann.dll'', ''libflann.dll'']
      else if platform E = ''darwin'' then [''libflann.dylib'']
      else [''libflann.so''])"

definition get_plat_specifier :: "env \<Rightarrow> string option" where
  "get_plat_specifier E =
     (case get_platform E of
        None \<Rightarrow> None
      | Some plat_name \<Rightarrow>
          Some (''.'' @ plat_name @ ''-'' @ take 3 (version E) @
                (if gettotalrefcount E then ''-pydebug'' else [])))"

definition possible_subdirs :: "env \<Rightarrow> string list list" where
  "possible_subdirs E =
     (case get_plat_specifier E of
        Some spec \<Rightarrow>
          [[''build'', ''lib'' @ spec, ''pyflann'', ''lib''], [''cmake_builds'', ''build'' @ spec, ''lib'']]
      | None \<Rightarrow> [])
     @ [[''build'', ''lib'', ''pyflann'', ''lib''], [''lib''], [''build'', ''lib'']]"

text \<open>The generator \<^verbatim>\<open>gen_possible_libpaths\<close>: from the module's directory up to the
  root, where \<^verbatim>\<open>dirname\<close> returns its argument.\<close>

function gen_possible_libpaths :: "env \<Rightarrow> string list \<Rightarrow> path list" where
  "gen_possible_libpaths E root_dir =
     concat (map (\<lambda>subdir. map (\<lambda>libname. AbsPath (root_dir @ subdir @ [libname]))
                                (possible_libnames E))
                 (possible_subdirs E))
     @ (let tmp = butlast root_dir in
        if tmp = root_dir then [] else gen_possible_libpaths E tmp)"
  by pat_completeness auto
termination
  by (relation "measure (\<lambda>(E, root_dir). length root_dir)") (auto simp: butlast_conv_take)

definition possible_libpaths :: "env \<Rightarrow> path list" where
  "possible_libpaths E = gen_possible_libpaths E (file_dir E)"

definition say :: "bool \<Rightarrow> event \<Rightarrow> event list" where
  "say vb ev = (if vb then [ev] else [])"

text \<open>The first loop: a path that exists and does not load re-raises.\<close>

fun try_libpaths :: "env \<Rightarrow> path list \<Rightarrow> event list \<Rightarrow> (error \<times> event list) + (lib option \<times> event list)" where
  "try_libpaths E [] out = Inr (None, out)"
| "try_libpaths E (libpath # rest) out =
     (case cdll E libpath of
        Inl e \<Rightarrow>
          (if exists E libpath
           then Inl (e, out @ say (verbose E) (Print_Trying libpath) @ say (verbose E) Print_exists_CDLL_error)
           else try_libpaths E rest
                  (out @ say (verbose E) (Print_Trying libpath) @ say (verbose E) Print_does_not_exist))
      | Inr syms \<Rightarrow>
          Inr (Some \<lparr>lib_path = libpath, exports = syms\<rparr>,
               out @ say (verbose E) (Print_Trying libpath) @ say (verbose E) Print_exists))"

text \<open>The second loop: the bare names, every exception swallowed.\<close>

fun try_libnames :: "env \<Rightarrow> string list \<Rightarrow> event list \<Rightarrow> lib option \<times> event list" where
  "try_libnames E [] out = (None, out)"
| "try_libnames E (libname # rest) out =
     (case cdll E (LibName libname) of
        Inl e \<Rightarrow> try_libnames E rest (out @ say (verbose E) (Print_fallback libname))
      | Inr syms \<Rightarrow>
          (Some \<lparr>lib_path = LibName libname, exports = syms\<rparr>,
           out @ say (verbose E) (Print_fallback libname)))"

definition load_flann_library :: "env \<Rightarrow> (error \<times> event list) + (lib option \<times> event list)" where
  "load_flann_library E =
     (case try_libpaths E (possible_libpaths E) (say (verbose E) Print_Loading) of
        Inl x \<Rightarrow> Inl x
      | Inr (flannlib, out) \<Rightarrow>
          (case (if flannlib = None then try_libnames E (possible_libnames E) out
                 else (flannlib, out)) of
             (None, out') \<Rightarrow> Inr (None, out' @ [Warn ''Unable to load C library for FLANN''])
           | (Some l, out') \<Rightarrow> Inr (Some l, out' @ say (verbose E) (Print_Using (lib_path l)))))"

section \<open>Registering the native entry points\<close>

text \<open>
  The types that appear in \<^verbatim>\<open>restype\<close> and \<^verbatim>\<open>argtypes\<close>: a scalar C type,
  \<^verbatim>\<open>c_void_p\<close>, \<^verbatim>\<open>c_char_p\<close>, a pointer, or \<^verbatim>\<open>ndpointer(dtype, ndim, flags)\<close>.
\<close>

datatype argtype =
    Scalar ctype
  | c_void_p
  | c_char_p
  | POINTER ctype
  | POINTER_FLANNParameters
  | ndpointer string "nat option" string

definition FLANN_INDEX :: argtype where
  "FLANN_INDEX = c_void_p"

definition default_flags :: "string list" where
  "default_flags = [''C_CONTIGUOUS'', ''ALIGNED'']"

definition allowed_types :: "string list" where
  "allowed_types = [''float32'', ''float64'', ''uint8'', ''int32'']"

definition type_mappings :: "(string \<times> string) list" where
  "type_mappings =
     [(''float'', ''float32''), (''double'', ''float64''), (''byte'', ''uint8''), (''int'', ''int32'')]"

text \<open>A function object of the library: ctypes creates it at the first access of the
  attribute, with \<^verbatim>\<open>restype\<close> \<^verbatim>\<open>c_int\<close> and no \<^verbatim>\<open>argtypes\<close>, and returns the same
  object at every later access.\<close>

record funcptr =
  restype :: "argtype option"
  argtypes :: "argtype list option"

text \<open>The module's state: \<^verbatim>\<open>flannlib\<close>, the function objects made so far (by symbol),
  and the attributes of the object \<^verbatim>\<open>flann\<close>, each a dictionary from a numpy type to
  a function object (its symbol).\<close>

record module =
  flannlib :: "lib option"
  funcs :: "string \<rightharpoonup> funcptr"
  flann :: "string \<rightharpoonup> (string \<times> string) list"

definition the_func :: "module \<Rightarrow> string \<Rightarrow> funcptr" where
  "the_func M f =
     (case funcs M f of
        Some p \<Rightarrow> p
      | None \<Rightarrow> \<lparr>restype = Some (Scalar c_int), argtypes = None\<rparr>)"

text \<open>
  The statements of the module body and of the format strings:
  \<^verbatim>\<open>flannlib.f.restype = r\<close>, \<^verbatim>\<open>flannlib.f.argtypes = a\<close>, \<^verbatim>\<open>flann.attr = {}\<close> and
  \<^verbatim>\<open>flann.attr[key] = flannlib.f\<close>. A symbol that the library does not export, or an
  attribute that \<^verbatim>\<open>flann\<close> does not have, raises \<^verbatim>\<open>AttributeError\<close>.
\<close>

datatype stmt =
    Set_restype string "argtype option"
  | Set_argtypes string "argtype list"
  | New_dict string
  | Set_entry string string string

fun exec :: "(string \<Rightarrow> bool) \<Rightarrow> stmt \<Rightarrow> module \<Rightarrow> error + module" where
  "exec ex (Set_restype f r) M =
     (if ex f then Inr (M\<lparr>funcs := (funcs M)(f \<mapsto> (the_func M f)\<lparr>restype := r\<rparr>)\<rparr>)
      else Inl (AttributeError f))"
| "exec ex (Set_argtypes f a) M =
     (if ex f then Inr (M\<lparr>funcs := (funcs M)(f \<mapsto> (the_func M f)\<lparr>argtypes := Some a\<rparr>)\<rparr>)
      else Inl (AttributeError f))"
| "exec ex (New_dict attr) M = Inr (M\<lparr>flann := (flann M)(attr \<mapsto> [])\<rparr>)"
| "exec ex (Set_entry attr key f) M =
     (if ex f then
        (case flann M attr of
           None \<Rightarrow> Inl (AttributeError attr)
         | Some d \<Rightarrow>
             Inr (M\<lparr>funcs := (funcs M)(f \<mapsto> the_func M f),
                    flann := (flann M)(attr \<mapsto> AList.update key f d)\<rparr>))
      else Inl (AttributeError f))"

fun exec_all :: "(string \<Rightarrow> bool) \<Rightarrow> stmt list \<Rightarrow> module \<Rightarrow> error + module" where
  "exec_all ex [] M = Inr M"
| "exec_all ex (s # ss) M =
     (case exec ex s M of Inl e \<Rightarrow> Inl e | Inr M' \<Rightarrow> exec_all ex ss M')"

text \<open>
  A format string, as the statements it becomes once \<^verbatim>\<open>%(C)s\<close> and \<^verbatim>\<open>%(numpy)s\<close> are
  filled in. \<^verbatim>\<open>define_functions\<close> runs it for each entry of \<^verbatim>\<open>type_mappings\<close>; on an
  \<^verbatim>\<open>AttributeError\<close> it prints the failing instance and raises the error again.
\<close>

type_synonym fmtstr = "string \<Rightarrow> string \<Rightarrow> stmt list"

fun define_loop :: "(string \<Rightarrow> bool) \<Rightarrow> fmtstr \<Rightarrow> (string \<times> string) list \<Rightarrow> module \<Rightarrow> error + module" where
  "define_loop ex fmt [] M = Inr M"
| "define_loop ex fmt (ty # rest) M =
     (case exec_all ex (fmt (fst ty) (snd ty)) M of
        Inl e \<Rightarrow> Inl e
      | Inr M' \<Rightarrow> define_loop ex fmt rest M')"

definition define_functions :: "(string \<Rightarrow> bool) \<Rightarrow> fmtstr \<Rightarrow> module \<Rightarrow> error + module" where
  "define_functions ex fmt M = define_loop ex fmt type_mappings M"

definition flags_in :: string where
  "flags_in = ''aligned, c_contiguous''"

definition flags_out :: string where
  "flags_out = ''aligned, c_contiguous, writeable''"

definition build_index_fmt :: fmtstr where
  "build_index_fmt C numpy =
     [Set_restype (''flann_build_index_'' @ C) (Some FLANN_INDEX),
      Set_argtypes (''flann_build_index_'' @ C)
        [ndpointer numpy (Some 2) flags_in, Scalar c_int, Scalar c_int, POINTER c_float,
         POINTER_FLANNParameters],
      Set_entry ''build_index'' numpy (''flann_build_index_'' @ C)]"

definition used_memory_fmt :: fmtstr where
  "used_memory_fmt C numpy =
     [Set_restype (''flann_used_memory_'' @ C) (Some (Scalar c_int)),
      Set_argtypes (''flann_used_memory_'' @ C) [FLANN_INDEX],
      Set_entry ''used_memory'' numpy (''flann_used_memory_'' @ C)]"

definition add_points_fmt :: fmtstr where
  "add_points_fmt C numpy =
     [Set_restype (''flann_add_points_'' @ C) None,
      Set_argtypes (''flann_add_points_'' @ C)
        [FLANN_INDEX, ndpointer numpy (Some 2) flags_in, Scalar c_int, Scalar c_int],
      Set_entry ''add_points'' numpy (''flann_add_points_'' @ C)]"

definition remove_point_fmt :: fmtstr where
  "remove_point_fmt C numpy =
     [Set_restype (''flann_remove_point_'' @ C) None,
      Set_argtypes (''flann_remove_point_'' @ C) [FLANN_INDEX, Scalar c_int],
      Set_entry ''remove_point'' numpy (''flann_remove_point_'' @ C)]"

definition save_index_fmt :: fmtstr where
  "save_index_fmt C numpy =
     [Set_restype (''flann_save_index_'' @ C) None,
      Set_argtypes (''flann_save_index_'' @ C) [FLANN_INDEX, c_char_p],
      Set_entry ''save_index'' numpy (''flann_save_index_'' @ C)]"

definition load_index_fmt :: fmtstr where
  "load_index_fmt C numpy =
     [Set_restype (''flann_load_index_'' @ C) (Some FLANN_INDEX),
      Set_argtypes (''flann_load_index_'' @ C)
        [c_char_p, ndpointer numpy (Some 2) flags_in, Scalar c_int, Scalar c_int],
      Set_entry ''load_index'' numpy (''flann_load_index_'' @ C)]"

text \<open>The argument lists of the four search families, by the element type of the
  inputs and the element type of the distances (or centers) written.\<close>

definition find_nearest_neighbors_argtypes :: "string \<Rightarrow> string \<Rightarrow> argtype list" where
  "find_nearest_neighbors_argtypes numpy dists =
     [ndpointer numpy (Some 2) flags_in, Scalar c_int, Scalar c_int,
      ndpointer numpy (Some 2) flags_in, Scalar c_int,
      ndpointer ''int32'' (Some 2) flags_out, ndpointer dists (Some 2) flags_out,
      Scalar c_int, POINTER_FLANNParameters]"

definition find_nearest_neighbors_index_argtypes :: "string \<Rightarrow> string \<Rightarrow> argtype list" where
  "find_nearest_neighbors_index_argtypes numpy dists =
     [FLANN_INDEX, ndpointer numpy (Some 2) flags_in, Scalar c_int,
      ndpointer ''int32'' (Some 2) flags_out, ndpointer dists (Some 2) flags_out,
      Scalar c_int, POINTER_FLANNParameters]"

definition radius_search_argtypes :: "string \<Rightarrow> string \<Rightarrow> argtype list" where
  "radius_search_argtypes numpy dists =
     [FLANN_INDEX, ndpointer numpy (Some 1) flags_in,
      ndpointer ''int32'' (Some 1) flags_out, ndpointer dists (Some 1) flags_out,
      Scalar c_int, Scalar c_float, POINTER_FLANNParameters]"

definition compute_cluster_centers_argtypes :: "string \<Rightarrow> string \<Rightarrow> argtype list" where
  "compute_cluster_centers_argtypes numpy result =
     [ndpointer numpy (Some 2) flags_in, Scalar c_int, Scalar c_int, Scalar c_int,
      ndpointer result None flags_out, POINTER_FLANNParameters]"

definition find_nearest_neighbors_fmt :: fmtstr where
  "find_nearest_neighbors_fmt C numpy =
     [Set_restype (''flann_find_nearest_neighbors_'' @ C) (Some (Scalar c_int)),
      Set_argtypes (''flann_find_nearest_neighbors_'' @ C)
        (find_nearest_neighbors_argtypes numpy ''float32''),
      Set_entry ''find_nearest_neighbors'' numpy (''flann_find_nearest_neighbors_'' @ C)]"

definition find_nearest_neighbors_index_fmt :: fmtstr where
  "find_nearest_neighbors_index_fmt C numpy =
     [Set_restype (''flann_find_nearest_neighbors_index_'' @ C) (Some (Scalar c_int)),
      Set_argtypes (''flann_find_nearest_neighbors_index_'' @ C)
        (find_nearest_neighbors_index_argtypes numpy ''float32''),
      Set_entry ''find_nearest_neighbors_index'' numpy
        (''flann_find_nearest_neighbors_index_'' @ C)]"

definition radius_search_fmt :: fmtstr where
  "radius_search_fmt C numpy =
     [Set_restype (''flann_radius_search_'' @ C) (Some (Scalar c_int)),
      Set_argtypes (''flann_radius_search_'' @ C) (radius_search_argtypes numpy ''float32''),
      Set_entry ''radius_search'' numpy (''flann_radius_search_'' @ C)]"

definition compute_cluster_centers_fmt :: fmtstr where
  "compute_cluster_centers_fmt C numpy =
     [Set_restype (''flann_compute_cluster_centers_'' @ C) (Some (Scalar c_int)),
      Set_argtypes (''flann_compute_cluster_centers_'' @ C)
        (compute_cluster_centers_argtypes numpy ''float32''),
      Set_entry ''compute_cluster_centers'' numpy (''flann_compute_cluster_centers_'' @ C)]"

definition free_index_fmt :: fmtstr where
  "free_index_fmt C numpy =
     [Set_restype (''flann_free_index_'' @ C) None,
      Set_argtypes (''flann_free_index_'' @ C) [FLANN_INDEX, POINTER_FLANNParameters],
      Set_entry ''free_index'' numpy (''flann_free_index_'' @ C)]"

text \<open>The body of \<^verbatim>\<open>if flannlib is not None:\<close>, statement by statement.\<close>

datatype item = Do stmt | Define fmtstr

definition module_body :: "item list" where
  "module_body =
     [Do (Set_restype ''flann_log_verbosity'' None),
      Do (Set_argtypes ''flann_log_verbosity'' [Scalar c_int]),
      Do (Set_restype ''flann_set_distance_type'' None),
      Do (Set_argtypes ''flann_set_distance_type'' [Scalar c_int, Scalar c_int]),
      Do (New_dict ''build_index''),
      Define build_index_fmt,
      Do (New_dict ''used_memory''),
      Define used_memory_fmt,
      Do (New_dict ''add_points''),
      Define add_points_fmt,
      Do (New_dict ''remove_point''),
      Define remove_point_fmt,
      Do (New_dict ''save_index''),
      Define save_index_fmt,
      Do (New_dict ''load_index''),
      Define load_index_fmt,
      Do (New_dict ''find_nearest_neighbors''),
      Define find_nearest_neighbors_fmt,
      Do (Set_restype ''flann_find_nearest_neighbors_double'' (Some (Scalar c_int))),
      Do (Set_argtypes ''flann_find_nearest_neighbors_double''
            (find_nearest_neighbors_argtypes ''float64'' ''float64'')),
      Do (Set_entry ''find_nearest_neighbors'' ''float64'' ''flann_find_nearest_neighbors_double''),
      Do (New_dict ''find_nearest_neighbors_index''),
      Define find_nearest_neighbors_index_fmt,
      Do (Set_restype ''flann_find_nearest_neighbors_index_double'' (Some (Scalar c_int))),
      Do (Set_argtypes ''flann_find_nearest_neighbors_index_double''
            (find_nearest_neighbors_index_argtypes ''float64'' ''float64'')),
      Do (Set_entry ''find_nearest_neighbors_index'' ''float64''
            ''flann_find_nearest_neighbors_index_double''),
      Do (New_dict ''radius_search''),
      Define radius_search_fmt,
      Do (Set_restype ''flann_radius_search_double'' (Some (Scalar c_int))),
      Do (Set_argtypes ''flann_radius_search_double'' (radius_search_argtypes ''float64'' ''float64'')),
      Do (Set_entry ''radius_search'' ''float64'' ''flann_radius_search_double''),
      Do (New_dict ''compute_cluster_centers''),
      Define compute_cluster_centers_fmt,
      Do (Set_restype ''flann_compute_cluster_centers_double'' (Some (Scalar c_int))),
      Do (Set_argtypes ''flann_compute_cluster_centers_double''
            (compute_cluster_centers_argtypes ''float64'' ''float64'')),
      Do (Set_entry ''compute_cluster_centers'' ''float64'' ''flann_compute_cluster_centers_double''),
      Do (New_dict ''free_index''),
      Define free_index_fmt]"

fun run_items :: "(string \<Rightarrow> bool) \<Rightarrow> item list \<Rightarrow> module \<Rightarrow> error + module" where
  "run_items ex [] M = Inr M"
| "run_items ex (Do s # rest) M =
     (case exec ex s M of Inl e \<Rightarrow> Inl e | Inr M' \<Rightarrow> run_items ex rest M')"
| "run_items ex (Define fmt # rest) M =
     (case define_functions ex fmt M of Inl e \<Rightarrow> Inl e | Inr M' \<Rightarrow> run_items ex rest M')"

text \<open>Importing the module: \<^verbatim>\<open>flannlib = load_flann_library()\<close>, \<^verbatim>\<open>flann = FlannLib()\<close>,
  and the registrations when a library was loaded.\<close>

definition module_load :: "env \<Rightarrow> (error \<times> event list) + (module \<times> event list)" where
  "module_load E =
     (case load_flann_library E of
        Inl x \<Rightarrow> Inl x
      | Inr (None, out) \<Rightarrow> Inr (\<lparr>flannlib = None, funcs = Map.empty, flann = Map.empty\<rparr>, out)
      | Inr (Some l, out) \<Rightarrow>
          (case run_items (exports l) module_body
                  \<lparr>flannlib = Some l, funcs = Map.empty, flann = Map.empty\<rparr> of
             Inl e \<Rightarrow> Inl (e, out)
           | Inr M \<Rightarrow> Inr (M, out)))"

text \<open>The eleven dictionaries of \<^verbatim>\<open>flann\<close>, and the four whose \<^verbatim>\<open>float64\<close> entry the
  module sets again after \<^verbatim>\<open>define_functions\<close>.\<close>

definition families :: "string list" where
  "families =
     [''build_index'', ''find_nearest_neighbors'', ''find_nearest_neighbors_index'',
      ''radius_search'', ''add_points'', ''remove_point'', ''save_index'', ''load_index'',
      ''compute_cluster_centers'', ''used_memory'', ''free_index'']"

definition search_families :: "(string \<times> fmtstr \<times> (string \<Rightarrow> string \<Rightarrow> argtype list)) list" where
  "search_families =
     [(''find_nearest_neighbors'', find_nearest_neighbors_fmt, find_nearest_neighbors_argtypes),
      (''find_nearest_neighbors_index'', find_nearest_neighbors_index_fmt,
       find_nearest_neighbors_index_argtypes),
      (''radius_search'', radius_search_fmt, radius_search_argtypes),
      (''compute_cluster_centers'', compute_cluster_centers_fmt, compute_cluster_centers_argtypes)]"

text \<open>The element types of the arrays a signature writes to.\<close>

fun writeable_dtypes :: "argtype list \<Rightarrow> string list" where
  "writeable_dtypes [] = []"
| "writeable_dtypes (ndpointer dtype ndim flags # rest) =
     (if flags = flags_out then dtype # writeable_dtypes rest else writeable_dtypes rest)"
| "writeable_dtypes (t # rest) = writeable_dtypes rest"

section \<open>Arrays of at least two dimensions\<close>

text \<open>
  An array is its shape and its elements in C order. The requirements given to
  \<^verbatim>\<open>require\<close> are about the memory layout, which this model does not have; a
  \<^verbatim>\<open>dtype\<close> among the keyword arguments converts every element.
\<close>

record 'a ndarray =
  shape :: "nat list"
  elems :: "'a list"

definition arr_size :: "'a ndarray \<Rightarrow> nat" where
  "arr_size arr = prod_list (shape arr)"

definition require :: "'a ndarray \<Rightarrow> string list \<Rightarrow> ('a \<Rightarrow> 'a) option \<Rightarrow> 'a ndarray" where
  "require arr requirements dtype =
     (case dtype of None \<Rightarrow> arr | Some cast \<Rightarrow> arr\<lparr>elems := map cast (elems arr)\<rparr>)"

text \<open>
  \<^verbatim>\<open>arr.reshape(newshape)\<close> as numpy resolves it: at most one negative (unknown)
  dimension, and it is the size divided by the product of the known ones, which must be
  nonzero and divide the size; with no unknown dimension the product must be the size.
\<close>

definition reshape :: "'a ndarray \<Rightarrow> int list \<Rightarrow> error + 'a ndarray" where
  "reshape arr newshape =
     (let s_original = int (arr_size arr);
          s_known = prod_list (filter (\<lambda>d. 0 \<le> d) newshape);
          unknown = length (filter (\<lambda>d. d < 0) newshape)
      in if 1 < unknown then Inl ValueError
         else if unknown = 1 then
           (if s_known = 0 then Inl ValueError
            else if s_original mod s_known = 0 then
              Inr (arr\<lparr>shape :=
                     map (\<lambda>d. nat (if d < 0 then s_original div s_known else d)) newshape\<rparr>)
            else Inl ValueError)
         else if s_original = s_known then Inr (arr\<lparr>shape := map nat newshape\<rparr>)
         else Inl ValueError)"

definition ensure_2d_array :: "'a ndarray \<Rightarrow> string list \<Rightarrow> ('a \<Rightarrow> 'a) option \<Rightarrow> error + 'a ndarray" where
  "ensure_2d_array arr flags kwargs =
     (let arr = require arr flags kwargs in
      if length (shape arr) = 1 then reshape arr [- 1, int (arr_size arr)] else Inr arr)"

section \<open>The index registry\<close>

text \<open>
  Modelled from the spec: the index registry of the native engine, which is not part of
  the binding. It owns the mapping from handle to index instance; build (and load)
  allocates a new handle; free removes the handle and releases the index; every
  operation on an unknown or already freed handle is rejected with the handle error.
  Handles are small integers that are never assigned twice. What an operation does to a
  live index is a parameter.
\<close>

datatype operation = Search | Add | Remove | Save | UsedMemory

datatype 'e reg_error = HandleError | EngineError 'e

record 'i registry =
  next_handle :: nat
  live :: "nat \<rightharpoonup> 'i"

definition empty_registry :: "'i registry" where
  "empty_registry = \<lparr>next_handle = 0, live = Map.empty\<rparr>"

definition build :: "'i registry \<Rightarrow> 'i \<Rightarrow> nat \<times> 'i registry" where
  "build r idx =
     (next_handle r, r\<lparr>next_handle := Suc (next_handle r), live := (live r)(next_handle r \<mapsto> idx)\<rparr>)"

definition free :: "'i registry \<Rightarrow> nat \<Rightarrow> 'e reg_error + 'i registry" where
  "free r h =
     (case live r h of
        None \<Rightarrow> Inl HandleError
      | Some idx \<Rightarrow> Inr (r\<lparr>live := (live r)(h := None)\<rparr>))"

definition invoke ::
  "(operation \<Rightarrow> 'i \<Rightarrow> 'e + 'r \<times> 'i) \<Rightarrow> 'i registry \<Rightarrow> operation \<Rightarrow> nat \<Rightarrow> 'e reg_error + 'r \<times> 'i registry" where
  "invoke run r opn h =
     (case live r h of
        None \<Rightarrow> Inl HandleError
      | Some idx \<Rightarrow>
          (case run opn idx of
             Inl e \<Rightarrow> Inl (EngineError e)
           | Inr (res, idx') \<Rightarrow> Inr (res, r\<lparr>live := (live r)(h \<mapsto> idx')\<rparr>)))"

text \<open>A caller's requests, and the registry after them (a rejected request leaves it
  as it was).\<close>

datatype 'i request = Build 'i | Load 'i | Free nat | Invoke operation nat

fun serve :: "(operation \<Rightarrow> 'i \<Rightarrow> 'e + 'r \<times> 'i) \<Rightarrow> 'i registry \<Rightarrow> 'i request \<Rightarrow> 'i registry" where
  "serve run r (Build idx) = snd (build r idx)"
| "serve run r (Load idx) = snd (build r idx)"
| "serve run r (Free h) = (case free r h :: 'e reg_error + 'i registry of Inl e \<Rightarrow> r | Inr r' \<Rightarrow> r')"
| "serve run r (Invoke opn h) = (case invoke run r opn h of Inl e \<Rightarrow> r | Inr (res, r') \<Rightarrow> r')"

fun serve_all :: "(operation \<Rightarrow> 'i \<Rightarrow> 'e + 'r \<times> 'i) \<Rightarrow> 'i registry \<Rightarrow> 'i request list \<Rightarrow> 'i registry" where
  "serve_all run r [] = r"
| "serve_all run r (q # qs) = serve_all run (serve run r q) qs"

section \<open>Notions used in the proofs\<close>

text \<open>A function object is typed once its \<^verbatim>\<open>argtypes\<close> are set.\<close>

definition typed :: "module \<Rightarrow> string \<Rightarrow> bool" where
  "typed M f = (case funcs M f of None \<Rightarrow> False | Some p \<Rightarrow> argtypes p \<noteq> None)"

text \<open>A check on a list of statements: every function put into a dictionary is the one
  whose \<^verbatim>\<open>argtypes\<close> were set last.\<close>

fun entries_typed :: "stmt list \<Rightarrow> string option \<Rightarrow> bool" where
  "entries_typed [] prev = True"
| "entries_typed (Set_argtypes f a # ss) prev = entries_typed ss (Some f)"
| "entries_typed (Set_entry attr key f # ss) prev = (prev = Some f \<and> entries_typed ss prev)"
| "entries_typed (Set_restype f r # ss) prev = entries_typed ss prev"
| "entries_typed (New_dict attr # ss) prev = entries_typed ss prev"

text \<open>The statements an item of the module body runs.\<close>

fun statements :: "item \<Rightarrow> stmt list" where
  "statements (Do s) = [s]"
| "statements (Define fmt) = concat (map (\<lambda>ty. fmt (fst ty) (snd ty)) type_mappings)"

abbreviation all_typed :: "module \<Rightarrow> bool" where
  "all_typed M \<equiv> \<forall>attr d f. flann M attr = Some d \<longrightarrow> f \<in> snd ` set d \<longrightarrow> typed M f"

text \<open>Two surroundings to run the loader in: one where no path exists and nothing
  loads, and one where every path loads a library that exports every symbol.\<close>

definition env_without_library :: env where
  "env_without_library =
     \<lparr>argv = [''prog''], platform = ''linux'', version = ''3.8.10 (default)'',
      gettotalrefcount = False, get_platform = Some ''linux-x86_64'',
      file_dir = [''opt'', ''site-packages'', ''pyflann''],
      exists = (\<lambda>p. False), cdll = (\<lambda>p. Inl OSError)\<rparr>"

definition env_with_library :: env where
  "env_with_library =
     \<lparr>argv = [''prog''], platform = ''linux'', version = ''3.8.10 (default)'',
      gettotalrefcount = False, get_platform = Some ''linux-x86_64'',
      file_dir = [''opt'', ''site-packages'', ''pyflann''],
      exists = (\<lambda>p. True), cdll = (\<lambda>p. Inr (\<lambda>f. True))\<rparr>"

text \<open>An engine to run the registry with: an index is a number, every operation
  returns it and leaves it as it is.\<close>

definition stub_engine :: "operation \<Rightarrow> nat \<Rightarrow> unit + nat \<times> nat" where
  "stub_engine opn idx = Inr (idx, idx)"

section \<open>Properties of the configuration structure\<close>

subsection \<open>Auxiliary facts\<close>

lemma setattr_field_names: "setattr A s k v = Inr s' \<Longrightarrow> field_names s' = field_names s"
  by (auto simp: setattr_def split: option.splits sum.splits)

lemma update_append:
  "update A s (pre @ d) = (case update A s pre of Inl x \<Rightarrow> Inl x | Inr s1 \<Rightarrow> update A s1 d)"
  by (induction pre arbitrary: s) (auto split: sum.splits)

lemma update_field_names: "update A s d = Inr s' \<Longrightarrow> field_names s' = field_names s"
  by (induction d arbitrary: s) (auto split: if_splits sum.splits dest: setattr_field_names)

lemma inst_simps:
  "struct_fields (FLANNParameters_inst m) = FLANNParameters_fields"
  "struct_translation (FLANNParameters_inst m) = FLANNParameters_translation"
  "field_names (FLANNParameters_inst m) = map fst FLANNParameters_fields"
  "mem (FLANNParameters_inst m) = m"
  by (simp_all add: FLANNParameters_inst_def FLANNParameters_def)

lemma inst_mem_update [simp]:
  "(FLANNParameters_inst m)\<lparr>mem := m'\<rparr> = FLANNParameters_inst m'"
  by (simp add: FLANNParameters_inst_def)

text \<open>\<^verbatim>\<open>FLANNParameters()\<close> succeeds on the platform \<open>abi_lp64\<close> and leaves every field
  at its default.\<close>

lemma FLANNParameters_init:
  "CustomStructure_init abi_lp64 FLANNParameters = Inr (FLANNParameters_inst default_mem)"
  by (simp add: CustomStructure_init_def FLANNParameters_def FLANNParameters_inst_def
      Structure_init_def FLANNParameters_fields_def FLANNParameters_defaults_def
      FLANNParameters_translation_def setattr_def translate_def algorithm_table_def
      centers_init_table_def log_level_table_def abi_lp64_def float_set_exact_def swrap_def
      default_mem_def update_conv' [symmetric] map_of_Cons_code del: map_of.simps)

lemma bogus_unknown: "''bogus'' \<notin> set (field_names (FLANNParameters_inst m))"
  by (simp add: inst_simps FLANNParameters_fields_def)

lemma checks_known:
  "''checks'' \<in> set (field_names (FLANNParameters_inst m))"
  "map_of (struct_fields (FLANNParameters_inst m)) ''checks'' = Some c_int"
  "map_of (struct_translation (FLANNParameters_inst m)) ''checks'' = None"
  by (simp_all add: inst_simps FLANNParameters_fields_def FLANNParameters_translation_def)

lemma algorithm_known:
  "''algorithm'' \<in> set (field_names (FLANNParameters_inst m))"
  "map_of (struct_fields (FLANNParameters_inst m)) ''algorithm'' = Some c_int"
  "map_of (struct_translation FLANNParameters) ''algorithm'' = Some algorithm_table"
  "map_of (struct_translation (FLANNParameters_inst m)) ''algorithm'' = Some algorithm_table"
  by (simp_all add: inst_simps FLANNParameters_def FLANNParameters_fields_def
      FLANNParameters_translation_def)

lemma translated_is_c_int:
  "map_of FLANNParameters_translation k = Some tbl \<Longrightarrow>
     map_of FLANNParameters_fields k = Some c_int \<and> k \<in> fst ` set FLANNParameters_fields"
  by (auto simp: FLANNParameters_translation_def FLANNParameters_fields_def split: if_splits)

lemma tables_small:
  "map_of FLANNParameters_translation k = Some tbl \<Longrightarrow> map_of tbl name = Some c \<Longrightarrow>
     0 \<le> c \<and> c < 256"
  by (auto simp: FLANNParameters_translation_def algorithm_table_def centers_init_table_def
       log_level_table_def split: if_splits)

lemma tables_distinct:
  "map_of FLANNParameters_translation k = Some tbl \<Longrightarrow> distinct (map fst tbl)"
  by (auto simp: FLANNParameters_translation_def algorithm_table_def centers_init_table_def
       log_level_table_def split: if_splits)

lemma swrap_small: "- (2 ^ 31) \<le> c \<Longrightarrow> c < 2 ^ 31 \<Longrightarrow> swrap 32 c = c"
  by (simp add: swrap_def)

text \<open>In a dictionary (no key twice), looking a code up backwards finds a name of that
  code, whatever the order of the entries.\<close>

lemma find_back_code:
  "distinct (map fst tbl) \<Longrightarrow> map_of tbl name = Some c \<Longrightarrow>
     \<exists>name'. find_back tbl (PInt c) = Some name' \<and> map_of tbl name' = Some c"
proof (induction tbl)
  case Nil
  then show ?case by simp
next
  case (Cons p tbl)
  obtain tk tv where p: "p = (tk, tv)" by (cases p)
  show ?case
  proof (cases "tv = c")
    case True
    then show ?thesis using p by simp
  next
    case False
    then have "map_of tbl name = Some c" using Cons.prems p by (auto split: if_splits)
    moreover have "distinct (map fst tbl)" using Cons.prems by simp
    ultimately obtain name' where n: "find_back tbl (PInt c) = Some name'" "map_of tbl name' = Some c"
      using Cons.IH by blast
    then have "name' \<in> fst ` set tbl" by (force dest: map_of_SomeD)
    then have "name' \<noteq> tk" using Cons.prems p by auto
    then show ?thesis using n p False by simp
  qed
qed

text \<open>Assigning \<^verbatim>\<open>'default'\<close> to \<^verbatim>\<open>algorithm\<close> stores 1, which reads back as
  \<^verbatim>\<open>'kdtree'\<close>, the first name of code 1.\<close>

lemma default_reads_kdtree:
  "setitem abi_lp64 (FLANNParameters_inst default_mem) ''algorithm'' (PStr ''default'') =
     Inr (FLANNParameters_inst (default_mem(''algorithm'' \<mapsto> PInt 1))) \<and>
   getitem (FLANNParameters_inst (default_mem(''algorithm'' \<mapsto> PInt 1))) ''algorithm'' =
     Inr (PStr ''kdtree'')"
  by (simp add: setitem_def getitem_def getattr_def translate_back_def setattr_def
      translate_def swrap_def algorithm_table_def inst_simps FLANNParameters_fields_def
      FLANNParameters_translation_def)

subsection \<open>The layout of FLANNParameters\<close>

text \<open>
  C1, as stated, fails: the structure does not have 20 fields.
\<close>

theorem FLANNParameters_not_20_fields: "length (struct_fields FLANNParameters) \<noteq> 20"
  by (simp add: FLANNParameters_def FLANNParameters_fields_def)

text \<open>
  C1 (amended): \<^verbatim>\<open>FLANNParameters\<close> is a flat record of 21 fields, each of a scalar C
  type, in exactly the order algorithm, checks, eps, sorted, max_neighbors, cores, trees,
  leaf_max_size, branching, iterations, centers_init, cb_index, target_precision,
  build_weight, memory_weight, sample_fraction, table_number_, key_size_,
  multi_probe_level_, log_level, random_seed.
\<close>

theorem FLANNParameters_layout:
  "map fst (struct_fields FLANNParameters) =
     [''algorithm'', ''checks'', ''eps'', ''sorted'', ''max_neighbors'', ''cores'', ''trees'',
      ''leaf_max_size'', ''branching'', ''iterations'', ''centers_init'', ''cb_index'',
      ''target_precision'', ''build_weight'', ''memory_weight'', ''sample_fraction'',
      ''table_number_'', ''key_size_'', ''multi_probe_level_'', ''log_level'', ''random_seed'']
   \<and> length (struct_fields FLANNParameters) = 21"
  by (simp add: FLANNParameters_def FLANNParameters_fields_def)

subsection \<open>Unknown keys\<close>

text \<open>
  C2, as stated, fails for \<^verbatim>\<open>update\<close>: the dictionary holds the unknown key
  \<^verbatim>\<open>'bogus'\<close>, and the call fails with the \<^verbatim>\<open>TypeError\<close> of the entry before it, not
  with a \<^verbatim>\<open>KeyError\<close>.
\<close>

theorem update_unknown_key_TypeError:
  "''bogus'' \<notin> set (field_names (FLANNParameters_inst default_mem)) \<and>
   update abi_lp64 (FLANNParameters_inst default_mem)
     [(''checks'', PStr ''abc''), (''bogus'', PInt 1)] =
       Inl (TypeError, FLANNParameters_inst default_mem)"
  by (simp add: bogus_unknown checks_known setattr_def translate_def)

text \<open>
  C2 (amended): for every structure and every key \<open>k\<close> that is not among its field
  names, \<^verbatim>\<open>structure[k] = v\<close> raises \<^verbatim>\<open>KeyError\<close> and leaves the structure as it was,
  and \<^verbatim>\<open>update\<close> with a dictionary that contains \<open>k\<close> always fails with an error: with
  the \<^verbatim>\<open>KeyError\<close> for \<open>k\<close> when the entries before \<open>k\<close> were all assigned (and they stay
  assigned), and otherwise with the error of the first entry that failed.
\<close>

theorem unknown_key_fails:
  assumes "k \<notin> set (field_names s)"
  shows "setitem A s k v = Inl (KeyError (''No such member: '' @ k), s) \<and>
     (\<exists>e s'. update A s (pre @ (k, v) # post) = Inl (e, s')) \<and>
     (\<forall>s1. update A s pre = Inr s1 \<longrightarrow>
        update A s (pre @ (k, v) # post) = Inl (KeyError (''No such member: '' @ k), s1)) \<and>
     (\<forall>e s1. update A s pre = Inl (e, s1) \<longrightarrow> update A s (pre @ (k, v) # post) = Inl (e, s1))"
proof (intro conjI allI impI)
  show "setitem A s k v = Inl (KeyError (''No such member: '' @ k), s)"
    using assms by (simp add: setitem_def)
next
  fix s1 assume ok: "update A s pre = Inr s1"
  then have "k \<notin> set (field_names s1)" using assms by (simp add: update_field_names)
  then show "update A s (pre @ (k, v) # post) = Inl (KeyError (''No such member: '' @ k), s1)"
    using ok by (simp add: update_append)
next
  fix e s1 assume "update A s pre = Inl (e, s1)"
  then show "update A s (pre @ (k, v) # post) = Inl (e, s1)" by (simp add: update_append)
next
  show "\<exists>e s'. update A s (pre @ (k, v) # post) = Inl (e, s')"
  proof (cases "update A s pre")
    case (Inl x)
    then show ?thesis by (cases x) (simp add: update_append)
  next
    case (Inr s1)
    then have "k \<notin> set (field_names s1)" using assms by (simp add: update_field_names)
    then show ?thesis using Inr by (simp add: update_append)
  qed
qed

text \<open>Witness for C2: the key \<^verbatim>\<open>'bogus'\<close> on a fresh \<^verbatim>\<open>FLANNParameters\<close>, after an entry
  that is assigned and after an entry that fails.\<close>

theorem unknown_key_fails_witness:
  "''bogus'' \<notin> set (field_names (FLANNParameters_inst default_mem)) \<and>
   setitem abi_lp64 (FLANNParameters_inst default_mem) ''bogus'' (PInt 1) =
     Inl (KeyError ''No such member: bogus'', FLANNParameters_inst default_mem) \<and>
   update abi_lp64 (FLANNParameters_inst default_mem) [(''checks'', PInt 64), (''bogus'', PInt 1)] =
     Inl (KeyError ''No such member: bogus'',
          FLANNParameters_inst (default_mem(''checks'' \<mapsto> PInt 64))) \<and>
   update abi_lp64 (FLANNParameters_inst default_mem)
     [(''checks'', PStr ''abc''), (''bogus'', PInt 1)] =
       Inl (TypeError, FLANNParameters_inst default_mem)"
proof -
  let ?S = "FLANNParameters_inst default_mem"
  have h: "''bogus'' \<notin> set (field_names ?S)" by (rule bogus_unknown)
  have ok: "update abi_lp64 ?S [(''checks'', PInt 64)] =
      Inr (FLANNParameters_inst (default_mem(''checks'' \<mapsto> PInt 64)))"
    by (simp add: checks_known setattr_def translate_def swrap_def inst_simps(4))
  have bad: "update abi_lp64 ?S [(''checks'', PStr ''abc'')] = Inl (TypeError, ?S)"
    by (simp add: checks_known setattr_def translate_def)
  show ?thesis
    using h ok bad
      unknown_key_fails [OF h, of abi_lp64 "PInt 1" "[(''checks'', PInt 64)]" "[]"]
      unknown_key_fails [OF h, of abi_lp64 "PInt 1" "[(''checks'', PStr ''abc'')]" "[]"]
    by simp
qed

subsection \<open>Values outside a translation table\<close>

text \<open>
  C3, as stated, fails: 999 is no key of the table of \<^verbatim>\<open>algorithm\<close> (and no code of
  it either), and assigning it stores 999 without any error.
\<close>

theorem invalid_code_is_stored:
  "translate (FLANNParameters_inst default_mem) ''algorithm'' (PInt 999) = PInt 999 \<and>
   find_back algorithm_table (PInt 999) = None \<and>
   setitem abi_lp64 (FLANNParameters_inst default_mem) ''algorithm'' (PInt 999) =
     Inr (FLANNParameters_inst (default_mem(''algorithm'' \<mapsto> PInt 999)))"
  by (simp add: setitem_def algorithm_known setattr_def translate_def swrap_def
      algorithm_table_def inst_simps(4))

text \<open>
  C3 (amended): for every translated field (algorithm, centers_init, log_level), a value
  that is not a key of the field's table reaches the C field as it is: an integer is
  stored (in 32 bits) with no error, whether or not it is a code of the table, and a
  value that is no integer (a string that is not a key, a float, \<^verbatim>\<open>None\<close>) fails
  synchronously with the \<^verbatim>\<open>TypeError\<close> of ctypes, the structure unchanged.
\<close>

theorem untranslated_value_reaches_field:
  assumes "map_of (struct_translation FLANNParameters) k = Some tbl"
  shows "setitem A (FLANNParameters_inst m) k (PInt n) =
           Inr (FLANNParameters_inst (m(k \<mapsto> PInt (swrap 32 n)))) \<and>
         ((\<forall>i. v \<noteq> PInt i) \<and> (\<forall>x. v = PStr x \<longrightarrow> map_of tbl x = None) \<longrightarrow>
           setitem A (FLANNParameters_inst m) k v = Inl (TypeError, FLANNParameters_inst m))"
proof -
  have t: "map_of FLANNParameters_translation k = Some tbl"
    using assms by (simp add: FLANNParameters_def)
  have fld: "map_of FLANNParameters_fields k = Some c_int" "k \<in> fst ` set FLANNParameters_fields"
    using translated_is_c_int [OF t] by simp_all
  have a: "setitem A (FLANNParameters_inst m) k (PInt n) =
           Inr (FLANNParameters_inst (m(k \<mapsto> PInt (swrap 32 n))))"
    using fld t by (simp add: setitem_def translate_def setattr_def inst_simps)
  have b: "setitem A (FLANNParameters_inst m) k v = Inl (TypeError, FLANNParameters_inst m)"
    if "\<forall>i. v \<noteq> PInt i" "\<forall>x. v = PStr x \<longrightarrow> map_of tbl x = None"
  proof -
    have "translate (FLANNParameters_inst m) k v = v"
      using t that by (cases v) (simp_all add: translate_def inst_simps)
    moreover have "c_set A c_int v = Inl TypeError" using that by (cases v) simp_all
    ultimately show ?thesis
      using fld by (simp add: setitem_def setattr_def inst_simps)
  qed
  show ?thesis using a b by blast
qed

text \<open>Witness for C3: the field \<^verbatim>\<open>algorithm\<close>, the integer 999 and the string
  \<^verbatim>\<open>'bogus'\<close>.\<close>

theorem untranslated_value_reaches_field_witness:
  "map_of (struct_translation FLANNParameters) ''algorithm'' = Some algorithm_table \<and>
   map_of algorithm_table ''bogus'' = None \<and>
   setitem abi_lp64 (FLANNParameters_inst default_mem) ''algorithm'' (PInt 999) =
     Inr (FLANNParameters_inst (default_mem(''algorithm'' \<mapsto> PInt 999))) \<and>
   setitem abi_lp64 (FLANNParameters_inst default_mem) ''algorithm'' (PStr ''bogus'') =
     Inl (TypeError, FLANNParameters_inst default_mem)"
proof -
  have t: "map_of (struct_translation FLANNParameters) ''algorithm'' = Some algorithm_table"
    by (rule algorithm_known)
  have n: "map_of algorithm_table ''bogus'' = None" by (simp add: algorithm_table_def)
  show ?thesis
    using t n
      untranslated_value_reaches_field [OF t, of abi_lp64 default_mem 999 "PStr ''bogus''"]
    by (simp add: swrap_def)
qed

subsection \<open>The translation tables\<close>

text \<open>
  C7: exactly the fields algorithm, centers_init and log_level have a translation table,
  and for every name of a field's table, assigning the name stores its integer code, and
  reading the field back returns a name of the table that carries the same code.
\<close>

theorem translation_round_trip:
  "map fst (struct_translation FLANNParameters) = [''algorithm'', ''centers_init'', ''log_level''] \<and>
   (\<forall>k tbl name c.
      map_of (struct_translation FLANNParameters) k = Some tbl \<longrightarrow> map_of tbl name = Some c \<longrightarrow>
      (\<exists>s'. setitem A (FLANNParameters_inst m) k (PStr name) = Inr s' \<and>
            mem s' k = Some (PInt c) \<and>
            (\<exists>name'. getitem s' k = Inr (PStr name') \<and> map_of tbl name' = Some c)))"
proof (intro conjI allI impI)
  show "map fst (struct_translation FLANNParameters) = [''algorithm'', ''centers_init'', ''log_level'']"
    by (simp add: FLANNParameters_def FLANNParameters_translation_def)
next
  fix k tbl name c
  assume "map_of (struct_translation FLANNParameters) k = Some tbl" and nc: "map_of tbl name = Some c"
  then have t: "map_of FLANNParameters_translation k = Some tbl" by (simp add: FLANNParameters_def)
  let ?s = "FLANNParameters_inst m"
  let ?s' = "?s\<lparr>mem := m(k \<mapsto> PInt c)\<rparr>"
  have fld: "map_of FLANNParameters_fields k = Some c_int" "k \<in> fst ` set FLANNParameters_fields"
    using translated_is_c_int [OF t] by simp_all
  have c: "swrap 32 c = c" using tables_small [OF t nc] by (intro swrap_small) simp_all
  have tr: "translate ?s k (PStr name) = PInt c"
    using t nc by (simp add: translate_def inst_simps)
  have set: "setitem A ?s k (PStr name) = Inr ?s'"
    using fld c by (simp add: setitem_def tr setattr_def inst_simps)
  obtain name' where n: "find_back tbl (PInt c) = Some name'" "map_of tbl name' = Some c"
    using find_back_code [OF tables_distinct [OF t] nc] by blast
  have get: "getitem ?s' k = Inr (PStr name')"
    using fld t n by (simp add: getitem_def getattr_def translate_back_def inst_simps)
  show "\<exists>s'. setitem A ?s k (PStr name) = Inr s' \<and> mem s' k = Some (PInt c) \<and>
            (\<exists>name'. getitem s' k = Inr (PStr name') \<and> map_of tbl name' = Some c)"
    using set get n by (intro exI [of _ ?s']) (auto simp: inst_simps)
qed

text \<open>Witness for C7: the name \<^verbatim>\<open>'default'\<close> of \<^verbatim>\<open>algorithm\<close>, whose code 1 it shares
  with \<^verbatim>\<open>'kdtree'\<close>.\<close>

theorem translation_round_trip_witness:
  "map_of (struct_translation FLANNParameters) ''algorithm'' = Some algorithm_table \<and>
   map_of algorithm_table ''default'' = Some 1 \<and>
   (\<exists>s'. setitem abi_lp64 (FLANNParameters_inst default_mem) ''algorithm'' (PStr ''default'') = Inr s' \<and>
         mem s' ''algorithm'' = Some (PInt 1) \<and>
         (\<exists>name'. getitem s' ''algorithm'' = Inr (PStr name') \<and>
                  map_of algorithm_table name' = Some 1))"
proof -
  have t: "map_of (struct_translation FLANNParameters) ''algorithm'' = Some algorithm_table"
    by (rule algorithm_known)
  have n: "map_of algorithm_table ''default'' = Some 1" by (simp add: algorithm_table_def)
  show ?thesis
    using t n translation_round_trip [of abi_lp64 default_mem] by blast
qed

subsection \<open>Reading an unknown key\<close>

text \<open>
  C9: for every structure and every key \<open>k\<close> that is not among its field names,
  \<^verbatim>\<open>structure[k]\<close> returns \<^verbatim>\<open>None\<close> without raising, while \<^verbatim>\<open>structure[k] = v\<close> raises
  \<^verbatim>\<open>KeyError\<close> for the same key.
\<close>

theorem getitem_unknown_key_is_None:
  "k \<notin> set (field_names s) \<Longrightarrow>
     getitem s k = Inr PNone \<and> setitem A s k v = Inl (KeyError (''No such member: '' @ k), s)"
  by (simp add: getitem_def setitem_def)

text \<open>Witness for C9: the key \<^verbatim>\<open>'bogus'\<close> on a fresh \<^verbatim>\<open>FLANNParameters\<close>.\<close>

theorem getitem_unknown_key_is_None_witness:
  "''bogus'' \<notin> set (field_names (FLANNParameters_inst default_mem)) \<and>
   getitem (FLANNParameters_inst default_mem) ''bogus'' = Inr PNone \<and>
   setitem abi_lp64 (FLANNParameters_inst default_mem) ''bogus'' (PInt 1) =
     Inl (KeyError ''No such member: bogus'', FLANNParameters_inst default_mem)"
proof -
  have h: "''bogus'' \<notin> set (field_names (FLANNParameters_inst default_mem))"
    by (rule bogus_unknown)
  show ?thesis using h getitem_unknown_key_is_None [OF h, of abi_lp64 "PInt 1"] by simp
qed

section \<open>Properties of the loader\<close>

lemma try_libpaths_none:
  "\<forall>p \<in> set ps. isl (cdll E p) \<and> \<not> exists E p \<Longrightarrow> \<exists>out'. try_libpaths E ps out = Inr (None, out')"
  by (induction ps arbitrary: out) (auto split: sum.splits)

lemma try_libnames_none:
  "\<forall>n \<in> set ns. isl (cdll E (LibName n)) \<Longrightarrow> \<exists>out'. try_libnames E ns out = (None, out')"
  by (induction ns arbitrary: out) (auto split: sum.splits)

text \<open>A candidate that exists and does not load is not "not found": the exception of
  \<^verbatim>\<open>cdll\<close> is raised again.\<close>

lemma try_libpaths_raises:
  "cdll E p = Inl e \<Longrightarrow> exists E p \<Longrightarrow> \<exists>out'. try_libpaths E (p # ps) out = Inl (e, out')"
  by simp

lemma load_without_library:
  "load_flann_library env_without_library = Inr (None, [Warn ''Unable to load C library for FLANN''])"
  by (simp add: load_flann_library_def possible_libpaths_def possible_libnames_def
      possible_subdirs_def get_plat_specifier_def verbose_def say_def env_without_library_def)

lemma load_with_library:
  "load_flann_library env_with_library =
     Inr (Some \<lparr>lib_path = AbsPath [''opt'', ''site-packages'', ''pyflann'', ''build'',
                                    ''lib.linux-x86_64-3.8'', ''pyflann'', ''lib'', ''libflann.so''],
               exports = (\<lambda>f. True)\<rparr>, [])"
  by (simp add: load_flann_library_def possible_libpaths_def possible_libnames_def
      possible_subdirs_def get_plat_specifier_def verbose_def say_def env_with_library_def)

text \<open>
  C4: when the library is found at no candidate path (no candidate exists or loads, and
  no bare library name loads), \<^verbatim>\<open>load_flann_library\<close> returns \<^verbatim>\<open>None\<close> after issuing
  the warning, and does not raise; the module then loads with \<^verbatim>\<open>flannlib\<close> \<^verbatim>\<open>None\<close> and
  nothing registered.
\<close>

theorem library_not_found_disables_module:
  assumes "\<forall>p \<in> set (possible_libpaths E). isl (cdll E p) \<and> \<not> exists E p"
    and "\<forall>n \<in> set (possible_libnames E). isl (cdll E (LibName n))"
  shows "\<exists>out. load_flann_library E = Inr (None, out @ [Warn ''Unable to load C library for FLANN'']) \<and>
     module_load E =
       Inr (\<lparr>flannlib = None, funcs = Map.empty, flann = Map.empty\<rparr>,
            out @ [Warn ''Unable to load C library for FLANN''])"
proof -
  obtain out1 where 1: "try_libpaths E (possible_libpaths E) (say (verbose E) Print_Loading) = Inr (None, out1)"
    using try_libpaths_none [OF assms(1)] by blast
  obtain out2 where 2: "try_libnames E (possible_libnames E) out1 = (None, out2)"
    using try_libnames_none [OF assms(2)] by blast
  have "load_flann_library E = Inr (None, out2 @ [Warn ''Unable to load C library for FLANN''])"
    by (simp add: load_flann_library_def 1 2)
  then show ?thesis by (simp add: module_load_def)
qed

text \<open>Witness for C4: a Linux installation where no path exists and nothing loads.\<close>

theorem library_not_found_disables_module_witness:
  "\<exists>out. load_flann_library env_without_library =
            Inr (None, out @ [Warn ''Unable to load C library for FLANN'']) \<and>
          module_load env_without_library =
            Inr (\<lparr>flannlib = None, funcs = Map.empty, flann = Map.empty\<rparr>,
                 out @ [Warn ''Unable to load C library for FLANN''])"
proof -
  have 1: "\<forall>p \<in> set (possible_libpaths env_without_library).
      isl (cdll env_without_library p) \<and> \<not> exists env_without_library p"
    by (simp add: env_without_library_def)
  have 2: "\<forall>n \<in> set (possible_libnames env_without_library). isl (cdll env_without_library (LibName n))"
    by (simp add: env_without_library_def)
  show ?thesis using library_not_found_disables_module [OF 1 2] .
qed

section \<open>Properties of the registration\<close>

subsection \<open>A library that exports more registers the same\<close>

lemma exec_full: "exec ex s M = Inr M' \<Longrightarrow> exec (\<lambda>_. True) s M = Inr M'"
  by (cases s) (auto split: if_splits)

lemma exec_all_full: "exec_all ex ss M = Inr M' \<Longrightarrow> exec_all (\<lambda>_. True) ss M = Inr M'"
  by (induction ss arbitrary: M) (auto split: sum.splits dest: exec_full)

lemma define_loop_full:
  "define_loop ex fmt tys M = Inr M' \<Longrightarrow> define_loop (\<lambda>_. True) fmt tys M = Inr M'"
  by (induction tys arbitrary: M) (auto split: sum.splits dest: exec_all_full)

lemma run_items_full: "run_items ex items M = Inr M' \<Longrightarrow> run_items (\<lambda>_. True) items M = Inr M'"
proof (induction items arbitrary: M)
  case Nil then show ?case by simp
next
  case (Cons i items)
  show ?case
  proof (cases i)
    case (Do s)
    then show ?thesis using Cons by (auto split: sum.splits dest: exec_full)
  next
    case (Define fmt)
    then show ?thesis using Cons
      by (auto simp: define_functions_def split: sum.splits dest: define_loop_full)
  qed
qed

subsection \<open>What one format string registers\<close>

lemma funcptr_overwrite:
  "(p :: funcptr)\<lparr>restype := r, argtypes := a\<rparr> = \<lparr>restype = r, argtypes = a\<rparr>"
  by (cases p) simp

lemma exec_entry:
  "flann M attr = Some d \<Longrightarrow>
   exec_all (\<lambda>_. True) [Set_restype f r, Set_argtypes f a, Set_entry attr key f] M =
     Inr (M\<lparr>funcs := (funcs M)(f \<mapsto> \<lparr>restype = r, argtypes = Some a\<rparr>),
            flann := (flann M)(attr \<mapsto> AList.update key f d)\<rparr>)"
  by (simp add: the_func_def funcptr_overwrite)

lemma run_set:
  "run_items (\<lambda>_. True) (Do (Set_restype f r) # Do (Set_argtypes f a) # rest) M =
     run_items (\<lambda>_. True) rest (M\<lparr>funcs := (funcs M)(f \<mapsto> \<lparr>restype = r, argtypes = Some a\<rparr>)\<rparr>)"
  by (simp add: the_func_def funcptr_overwrite)

lemma define_block:
  assumes fmt: "\<And>C np. fmt C np =
     [Set_restype (pre @ C) r, Set_argtypes (pre @ C) (a np), Set_entry attr np (pre @ C)]"
  shows "run_items (\<lambda>_. True) (Do (New_dict attr) # Define fmt # rest) M =
     run_items (\<lambda>_. True) rest
       (M\<lparr>funcs := (funcs M)
              (pre @ ''float'' \<mapsto> \<lparr>restype = r, argtypes = Some (a ''float32'')\<rparr>,
               pre @ ''double'' \<mapsto> \<lparr>restype = r, argtypes = Some (a ''float64'')\<rparr>,
               pre @ ''byte'' \<mapsto> \<lparr>restype = r, argtypes = Some (a ''uint8'')\<rparr>,
               pre @ ''int'' \<mapsto> \<lparr>restype = r, argtypes = Some (a ''int32'')\<rparr>),
          flann := (flann M)
              (attr \<mapsto> [(''float32'', pre @ ''float''), (''float64'', pre @ ''double''),
                         (''uint8'', pre @ ''byte''), (''int32'', pre @ ''int'')])\<rparr>)"
  by (simp add: define_functions_def type_mappings_def fmt exec_entry del: exec_all.simps)

lemma define_block_double:
  assumes fmt: "\<And>C np. fmt C np =
     [Set_restype (pre @ C) r, Set_argtypes (pre @ C) (a np), Set_entry attr np (pre @ C)]"
  shows "run_items (\<lambda>_. True)
           (Do (New_dict attr) # Define fmt #
            Do (Set_restype (pre @ ''double'') r') # Do (Set_argtypes (pre @ ''double'') a') #
            Do (Set_entry attr ''float64'' (pre @ ''double'')) # rest) M =
     run_items (\<lambda>_. True) rest
       (M\<lparr>funcs := (funcs M)
              (pre @ ''float'' \<mapsto> \<lparr>restype = r, argtypes = Some (a ''float32'')\<rparr>,
               pre @ ''double'' \<mapsto> \<lparr>restype = r', argtypes = Some a'\<rparr>,
               pre @ ''byte'' \<mapsto> \<lparr>restype = r, argtypes = Some (a ''uint8'')\<rparr>,
               pre @ ''int'' \<mapsto> \<lparr>restype = r, argtypes = Some (a ''int32'')\<rparr>),
          flann := (flann M)
              (attr \<mapsto> [(''float32'', pre @ ''float''), (''float64'', pre @ ''double''),
                         (''uint8'', pre @ ''byte''), (''int32'', pre @ ''int'')])\<rparr>)"
  apply (simp only: define_block [of fmt pre r a, OF fmt])
  apply (simp add: the_func_def)
  apply (rule arg_cong [where f = "run_items (\<lambda>_. True) rest"])
  apply (rule arg_cong [where f = "\<lambda>F. M\<lparr>funcs := F, flann := _\<rparr>"])
  apply (rule ext)
  apply simp
  done

lemmas blocks =
  define_block [OF build_index_fmt_def]
  define_block [OF used_memory_fmt_def]
  define_block [OF add_points_fmt_def]
  define_block [OF remove_point_fmt_def]
  define_block [OF save_index_fmt_def]
  define_block [OF load_index_fmt_def]
  define_block [OF free_index_fmt_def]
  define_block_double [OF find_nearest_neighbors_fmt_def, unfolded append.simps]
  define_block_double [OF find_nearest_neighbors_index_fmt_def, unfolded append.simps]
  define_block_double [OF radius_search_fmt_def, unfolded append.simps]
  define_block_double [OF compute_cluster_centers_fmt_def, unfolded append.simps]

subsection \<open>The module body, run against a library that exports every symbol\<close>

lemma final_facts:
  "\<exists>M. run_items (\<lambda>_. True) module_body \<lparr>flannlib = L, funcs = Map.empty, flann = Map.empty\<rparr> = Inr M \<and>
     flannlib M = L \<and>
     (\<forall>fam \<in> set families. \<exists>d. flann M fam = Some d \<and> map fst d = allowed_types) \<and>
     (\<forall>(fam, fmt, args) \<in> set search_families. \<exists>d. flann M fam = Some d \<and>
        map_of d ''float64'' = Some (''flann_'' @ fam @ ''_double'') \<and>
        funcs M (''flann_'' @ fam @ ''_double'') =
          Some \<lparr>restype = Some (Scalar c_int), argtypes = Some (args ''float64'' ''float64'')\<rparr> \<and>
        (\<forall>(C, np) \<in> set type_mappings. np \<noteq> ''float64'' \<longrightarrow>
           map_of d np = Some (''flann_'' @ fam @ ''_'' @ C) \<and>
           funcs M (''flann_'' @ fam @ ''_'' @ C) =
             Some \<lparr>restype = Some (Scalar c_int), argtypes = Some (args np ''float32'')\<rparr>))"
  by (simp add: module_body_def run_set blocks families_def allowed_types_def search_families_def
      type_mappings_def del: run_items.simps(2,3))

lemma loaded_run:
  assumes "module_load E = Inr (M, out)" "flannlib M = Some l"
  shows "\<exists>l'. run_items (\<lambda>_. True) module_body
            \<lparr>flannlib = Some l', funcs = Map.empty, flann = Map.empty\<rparr> = Inr M"
proof -
  from assms obtain l' where
    "run_items (exports l') module_body \<lparr>flannlib = Some l', funcs = Map.empty, flann = Map.empty\<rparr> = Inr M"
    by (auto simp: module_load_def split: sum.splits option.splits prod.splits)
  then show ?thesis using run_items_full by blast
qed

lemma module_load_with_library:
  "\<exists>M l. module_load env_with_library = Inr (M, []) \<and> flannlib M = Some l"
proof -
  let ?l = "\<lparr>lib_path = AbsPath [''opt'', ''site-packages'', ''pyflann'', ''build'',
                ''lib.linux-x86_64-3.8'', ''pyflann'', ''lib'', ''libflann.so''],
             exports = (\<lambda>f. True)\<rparr>"
  obtain M where M: "run_items (\<lambda>_. True) module_body
      \<lparr>flannlib = Some ?l, funcs = Map.empty, flann = Map.empty\<rparr> = Inr M" "flannlib M = Some ?l"
    using final_facts [of "Some ?l"] by blast
  have "module_load env_with_library = Inr (M, [])"
    by (simp add: module_load_def load_with_library M(1))
  then show ?thesis using M(2) by blast
qed

subsection \<open>Every registered function has its argument types\<close>

lemma exec_all_append:
  "exec_all ex (xs @ ys) M =
     (case exec_all ex xs M of Inl e \<Rightarrow> Inl e | Inr M1 \<Rightarrow> exec_all ex ys M1)"
  by (induction xs arbitrary: M) (auto split: sum.splits)

lemma define_loop_statements:
  "define_loop ex fmt tys M = exec_all ex (concat (map (\<lambda>ty. fmt (fst ty) (snd ty)) tys)) M"
  by (induction tys arbitrary: M) (auto simp: exec_all_append split: sum.splits)

lemma run_items_statements:
  "run_items ex items M = exec_all ex (concat (map statements items)) M"
proof (induction items arbitrary: M)
  case Nil then show ?case by simp
next
  case (Cons i items)
  then show ?case
    by (cases i)
      (auto simp: exec_all_append define_functions_def define_loop_statements split: sum.splits)
qed

lemma typed_exec: "exec ex s M = Inr M1 \<Longrightarrow> typed M f \<Longrightarrow> typed M1 f"
  by (cases s) (auto simp: typed_def the_func_def split: if_splits option.splits)

lemma update_values: "snd ` set (AList.update k v al) \<subseteq> insert v (snd ` set al)"
  by (induction al) auto

lemma all_typed_exec:
  assumes "exec ex s M = Inr M1" "all_typed M"
    and "\<And>attr key f. s = Set_entry attr key f \<Longrightarrow> typed M f"
  shows "all_typed M1"
proof (cases s)
  case (Set_restype g r)
  then have "flann M1 = flann M" using assms(1) by (auto split: if_splits)
  then show ?thesis using assms(1,2) typed_exec by metis
next
  case (Set_argtypes g a)
  then have "flann M1 = flann M" using assms(1) by (auto split: if_splits)
  then show ?thesis using assms(1,2) typed_exec by metis
next
  case (New_dict attr)
  then have "flann M1 = (flann M)(attr \<mapsto> [])" "funcs M1 = funcs M" using assms(1) by auto
  then show ?thesis using assms(2) by (auto simp: typed_def split: if_splits)
next
  case (Set_entry attr key g)
  then obtain d where d: "flann M attr = Some d"
    and fl: "flann M1 = (flann M)(attr \<mapsto> AList.update key g d)"
    using assms(1) by (auto split: if_splits option.splits)
  have g: "typed M1 g" using assms(3) [OF Set_entry] assms(1) by (rule typed_exec [rotated])
  show ?thesis
  proof (intro allI impI)
    fix a e f assume a: "flann M1 a = Some e" "f \<in> snd ` set e"
    show "typed M1 f"
    proof (cases "a = attr")
      case True
      then have "e = AList.update key g d" using a fl by simp
      then have "f = g \<or> f \<in> snd ` set d" using a(2) update_values [of key g d] by auto
      then show ?thesis using g d assms(1,2) typed_exec by metis
    next
      case False
      then have "flann M a = Some e" using a fl by simp
      then show ?thesis using a(2) assms(1,2) typed_exec by metis
    qed
  qed
qed

lemma all_typed_exec_all:
  "exec_all ex ss M = Inr M' \<Longrightarrow> entries_typed ss prev \<Longrightarrow> all_typed M \<Longrightarrow>
     (\<And>f. prev = Some f \<Longrightarrow> typed M f) \<Longrightarrow> all_typed M'"
proof (induction ss prev arbitrary: M rule: entries_typed.induct)
  case (1 prev)
  then show ?case by simp
next
  case (2 f a ss prev)
  from "2.prems"(1) obtain M1
    where s: "exec ex (Set_argtypes f a) M = Inr M1" "exec_all ex ss M1 = Inr M'"
    by (auto split: sum.splits)
  have "all_typed M1" using s(1) "2.prems"(3) by (rule all_typed_exec) simp
  moreover have "typed M1 f" using s(1) by (auto simp: typed_def split: if_splits)
  ultimately show ?case using "2.IH" [OF s(2)] "2.prems"(2) by simp
next
  case (3 attr key f ss prev)
  from "3.prems"(1) obtain M1
    where s: "exec ex (Set_entry attr key f) M = Inr M1" "exec_all ex ss M1 = Inr M'"
    by (auto split: sum.splits)
  have l: "prev = Some f" "entries_typed ss prev" using "3.prems"(2) by auto
  have "all_typed M1"
    using s(1) "3.prems"(3) by (rule all_typed_exec) (use l "3.prems"(4) in auto)
  moreover have "\<And>g. prev = Some g \<Longrightarrow> typed M1 g" using "3.prems"(4) s(1) typed_exec by blast
  ultimately show ?case using "3.IH" [OF s(2) l(2)] by blast
next
  case (4 v va ss prev)
  from "4.prems"(1) obtain M1
    where s: "exec ex (Set_restype v va) M = Inr M1" "exec_all ex ss M1 = Inr M'"
    by (auto split: sum.splits)
  have "all_typed M1" using s(1) "4.prems"(3) by (rule all_typed_exec) simp
  moreover have "\<And>g. prev = Some g \<Longrightarrow> typed M1 g" using "4.prems"(4) s(1) typed_exec by blast
  ultimately show ?case using "4.IH" [OF s(2)] "4.prems"(2) by simp
next
  case (5 v ss prev)
  from "5.prems"(1) obtain M1
    where s: "exec ex (New_dict v) M = Inr M1" "exec_all ex ss M1 = Inr M'"
    by (auto split: sum.splits)
  have "all_typed M1" using s(1) "5.prems"(3) by (rule all_typed_exec) simp
  moreover have "\<And>g. prev = Some g \<Longrightarrow> typed M1 g" using "5.prems"(4) s(1) typed_exec by blast
  ultimately show ?case using "5.IH" [OF s(2)] "5.prems"(2) by simp
qed

lemma module_body_entries_typed: "entries_typed (concat (map statements module_body)) None"
  by (simp add: module_body_def type_mappings_def
      build_index_fmt_def used_memory_fmt_def add_points_fmt_def remove_point_fmt_def
      save_index_fmt_def load_index_fmt_def find_nearest_neighbors_fmt_def
      find_nearest_neighbors_index_fmt_def radius_search_fmt_def compute_cluster_centers_fmt_def
      free_index_fmt_def)

lemma registered_all_typed:
  assumes "run_items ex module_body \<lparr>flannlib = L, funcs = Map.empty, flann = Map.empty\<rparr> = Inr M"
  shows "all_typed M"
  using assms [unfolded run_items_statements] module_body_entries_typed
  by (rule all_typed_exec_all) simp_all

lemma dict_lookup: "t \<in> set (map fst d) \<Longrightarrow> \<exists>f. map_of d t = Some f \<and> f \<in> snd ` set d"
  by (induction d) auto

subsection \<open>The dictionaries of the four element types\<close>

text \<open>
  C5: when the module has loaded with a library, each of the eleven dictionaries
  (build_index, find_nearest_neighbors, find_nearest_neighbors_index, radius_search,
  add_points, remove_point, save_index, load_index, compute_cluster_centers, used_memory,
  free_index) has exactly the keys float32, float64, uint8 and int32, and each key holds
  a function of the library whose argument types are set.
\<close>

theorem every_family_has_the_four_types:
  assumes "module_load E = Inr (M, out)" "flannlib M = Some l"
  shows "\<forall>fam \<in> set families. \<exists>d. flann M fam = Some d \<and> map fst d = allowed_types \<and>
     (\<forall>t \<in> set allowed_types. \<exists>f p a. map_of d t = Some f \<and> funcs M f = Some p \<and> argtypes p = Some a)"
proof
  fix fam assume fam: "fam \<in> set families"
  obtain l' where run: "run_items (\<lambda>_. True) module_body
      \<lparr>flannlib = Some l', funcs = Map.empty, flann = Map.empty\<rparr> = Inr M"
    using loaded_run [OF assms] by blast
  obtain d where d: "flann M fam = Some d" "map fst d = allowed_types"
    using final_facts [of "Some l'"] run fam by auto
  have ty: "all_typed M" using run by (rule registered_all_typed)
  have "\<exists>f p a. map_of d t = Some f \<and> funcs M f = Some p \<and> argtypes p = Some a"
    if t: "t \<in> set allowed_types" for t
  proof -
    obtain f where f: "map_of d t = Some f" "f \<in> snd ` set d"
      using dict_lookup [of t d] t d(2) by auto
    then have "typed M f" using ty d(1) by blast
    then show ?thesis using f(1) by (auto simp: typed_def split: option.splits)
  qed
  then show "\<exists>d. flann M fam = Some d \<and> map fst d = allowed_types \<and>
     (\<forall>t \<in> set allowed_types. \<exists>f p a. map_of d t = Some f \<and> funcs M f = Some p \<and> argtypes p = Some a)"
    using d by blast
qed

text \<open>Witness for C5: the module loaded where the first candidate path holds a library
  that exports every symbol.\<close>

theorem every_family_has_the_four_types_witness:
  "\<exists>M out l d f p a. module_load env_with_library = Inr (M, out) \<and> flannlib M = Some l \<and>
     flann M ''radius_search'' = Some d \<and> map fst d = allowed_types \<and>
     map_of d ''uint8'' = Some f \<and> funcs M f = Some p \<and> argtypes p = Some a"
proof -
  obtain M l where ml: "module_load env_with_library = Inr (M, [])" and fl: "flannlib M = Some l"
    using module_load_with_library by blast
  have fam: "''radius_search'' \<in> set families" by (simp add: families_def)
  have t: "''uint8'' \<in> set allowed_types" by (simp add: allowed_types_def)
  obtain d where d: "flann M ''radius_search'' = Some d" "map fst d = allowed_types"
    "\<forall>t \<in> set allowed_types. \<exists>f p a. map_of d t = Some f \<and> funcs M f = Some p \<and> argtypes p = Some a"
    using bspec [OF every_family_has_the_four_types [OF ml fl] fam] by blast
  then show ?thesis using ml fl bspec [OF d(3) t] by blast
qed

subsection \<open>The float64 entries of the search families\<close>

lemma search_static:
  "\<forall>(fam, fmt, args) \<in> set search_families.
     Do (Set_argtypes (''flann_'' @ fam @ ''_double'') (args ''float64'' ''float64'')) \<in> set module_body \<and>
     Do (Set_entry fam ''float64'' (''flann_'' @ fam @ ''_double'')) \<in> set module_body \<and>
     Set_argtypes (''flann_'' @ fam @ ''_double'') (args ''float64'' ''float32'') \<in> set (fmt ''double'' ''float64'') \<and>
     ''float64'' \<in> set (writeable_dtypes (args ''float64'' ''float64'')) \<and>
     ''float32'' \<notin> set (writeable_dtypes (args ''float64'' ''float64'')) \<and>
     (\<forall>np. ''float32'' \<in> set (writeable_dtypes (args np ''float32'')))"
  by (simp add: search_families_def module_body_def find_nearest_neighbors_fmt_def
      find_nearest_neighbors_index_fmt_def radius_search_fmt_def compute_cluster_centers_fmt_def
      find_nearest_neighbors_argtypes_def find_nearest_neighbors_index_argtypes_def
      radius_search_argtypes_def compute_cluster_centers_argtypes_def flags_in_def flags_out_def
      FLANN_INDEX_def)

text \<open>
  C6: when the module has loaded with a library, for each of find_nearest_neighbors,
  find_nearest_neighbors_index, radius_search and compute_cluster_centers the float64
  entry is the \<^verbatim>\<open>_double\<close> function with the argument types that the module body sets
  by statements of its own, outside the format string: the arrays written (distances,
  cluster centers) are float64 and none is float32. The format string itself gives that
  function float32 for them, as it does for the other three element types, whose
  registered functions keep float32.
\<close>

theorem double_search_entries_registered_separately:
  assumes "module_load E = Inr (M, out)" "flannlib M = Some l"
  shows "\<forall>(fam, fmt, args) \<in> set search_families.
     (\<exists>d. flann M fam = Some d \<and> map_of d ''float64'' = Some (''flann_'' @ fam @ ''_double'')) \<and>
     funcs M (''flann_'' @ fam @ ''_double'') =
       Some \<lparr>restype = Some (Scalar c_int), argtypes = Some (args ''float64'' ''float64'')\<rparr> \<and>
     Do (Set_argtypes (''flann_'' @ fam @ ''_double'') (args ''float64'' ''float64'')) \<in> set module_body \<and>
     Do (Set_entry fam ''float64'' (''flann_'' @ fam @ ''_double'')) \<in> set module_body \<and>
     Set_argtypes (''flann_'' @ fam @ ''_double'') (args ''float64'' ''float32'') \<in> set (fmt ''double'' ''float64'') \<and>
     ''float64'' \<in> set (writeable_dtypes (args ''float64'' ''float64'')) \<and>
     ''float32'' \<notin> set (writeable_dtypes (args ''float64'' ''float64'')) \<and>
     (\<forall>(C, np) \<in> set type_mappings. np \<noteq> ''float64'' \<longrightarrow>
        funcs M (''flann_'' @ fam @ ''_'' @ C) =
          Some \<lparr>restype = Some (Scalar c_int), argtypes = Some (args np ''float32'')\<rparr> \<and>
        ''float32'' \<in> set (writeable_dtypes (args np ''float32'')))"
proof -
  obtain l' where run: "run_items (\<lambda>_. True) module_body
      \<lparr>flannlib = Some l', funcs = Map.empty, flann = Map.empty\<rparr> = Inr M"
    using loaded_run [OF assms] by blast
  have dyn: "\<forall>(fam, fmt, args) \<in> set search_families. \<exists>d. flann M fam = Some d \<and>
        map_of d ''float64'' = Some (''flann_'' @ fam @ ''_double'') \<and>
        funcs M (''flann_'' @ fam @ ''_double'') =
          Some \<lparr>restype = Some (Scalar c_int), argtypes = Some (args ''float64'' ''float64'')\<rparr> \<and>
        (\<forall>(C, np) \<in> set type_mappings. np \<noteq> ''float64'' \<longrightarrow>
           map_of d np = Some (''flann_'' @ fam @ ''_'' @ C) \<and>
           funcs M (''flann_'' @ fam @ ''_'' @ C) =
             Some \<lparr>restype = Some (Scalar c_int), argtypes = Some (args np ''float32'')\<rparr>)"
    using final_facts [of "Some l'"] run by auto
  show ?thesis
  proof (intro ballI)
    fix x assume x: "x \<in> set search_families"
    obtain fam fmt args where t: "x = (fam, fmt, args)" by (cases x)
    show "case x of (fam, fmt, args) \<Rightarrow>
     (\<exists>d. flann M fam = Some d \<and> map_of d ''float64'' = Some (''flann_'' @ fam @ ''_double'')) \<and>
     funcs M (''flann_'' @ fam @ ''_double'') =
       Some \<lparr>restype = Some (Scalar c_int), argtypes = Some (args ''float64'' ''float64'')\<rparr> \<and>
     Do (Set_argtypes (''flann_'' @ fam @ ''_double'') (args ''float64'' ''float64'')) \<in> set module_body \<and>
     Do (Set_entry fam ''float64'' (''flann_'' @ fam @ ''_double'')) \<in> set module_body \<and>
     Set_argtypes (''flann_'' @ fam @ ''_double'') (args ''float64'' ''float32'') \<in> set (fmt ''double'' ''float64'') \<and>
     ''float64'' \<in> set (writeable_dtypes (args ''float64'' ''float64'')) \<and>
     ''float32'' \<notin> set (writeable_dtypes (args ''float64'' ''float64'')) \<and>
     (\<forall>(C, np) \<in> set type_mappings. np \<noteq> ''float64'' \<longrightarrow>
        funcs M (''flann_'' @ fam @ ''_'' @ C) =
          Some \<lparr>restype = Some (Scalar c_int), argtypes = Some (args np ''float32'')\<rparr> \<and>
        ''float32'' \<in> set (writeable_dtypes (args np ''float32'')))"
      using bspec [OF dyn x] bspec [OF search_static x] unfolding t
      by (simp add: case_prod_beta) blast
  qed
qed

text \<open>Witness for C6: the module loaded where the first candidate path holds a library
  that exports every symbol.\<close>

theorem double_search_entries_registered_separately_witness:
  "\<exists>M out l d. module_load env_with_library = Inr (M, out) \<and> flannlib M = Some l \<and>
     flann M ''radius_search'' = Some d \<and>
     map_of d ''float64'' = Some ''flann_radius_search_double'' \<and>
     funcs M ''flann_radius_search_double'' =
       Some \<lparr>restype = Some (Scalar c_int),
             argtypes = Some (radius_search_argtypes ''float64'' ''float64'')\<rparr> \<and>
     Do (Set_argtypes ''flann_radius_search_double'' (radius_search_argtypes ''float64'' ''float64''))
       \<in> set module_body \<and>
     Set_argtypes ''flann_radius_search_double'' (radius_search_argtypes ''float64'' ''float32'')
       \<in> set (radius_search_fmt ''double'' ''float64'') \<and>
     ''float64'' \<in> set (writeable_dtypes (radius_search_argtypes ''float64'' ''float64'')) \<and>
     funcs M ''flann_radius_search_byte'' =
       Some \<lparr>restype = Some (Scalar c_int),
             argtypes = Some (radius_search_argtypes ''uint8'' ''float32'')\<rparr> \<and>
     ''float32'' \<in> set (writeable_dtypes (radius_search_argtypes ''uint8'' ''float32''))"
proof -
  obtain M l where ml: "module_load env_with_library = Inr (M, [])" and fl: "flannlib M = Some l"
    using module_load_with_library by blast
  have fam: "(''radius_search'', radius_search_fmt, radius_search_argtypes) \<in> set search_families"
    by (simp add: search_families_def)
  have ty: "(''byte'', ''uint8'') \<in> set type_mappings" by (simp add: type_mappings_def)
  have r: "(\<exists>d. flann M ''radius_search'' = Some d \<and>
          map_of d ''float64'' = Some ''flann_radius_search_double'') \<and>
     funcs M ''flann_radius_search_double'' =
       Some \<lparr>restype = Some (Scalar c_int),
             argtypes = Some (radius_search_argtypes ''float64'' ''float64'')\<rparr> \<and>
     Do (Set_argtypes ''flann_radius_search_double'' (radius_search_argtypes ''float64'' ''float64''))
       \<in> set module_body \<and>
     Set_argtypes ''flann_radius_search_double'' (radius_search_argtypes ''float64'' ''float32'')
       \<in> set (radius_search_fmt ''double'' ''float64'') \<and>
     ''float64'' \<in> set (writeable_dtypes (radius_search_argtypes ''float64'' ''float64'')) \<and>
     (\<forall>(C, np) \<in> set type_mappings. np \<noteq> ''float64'' \<longrightarrow>
        funcs M (''flann_'' @ ''radius_search'' @ ''_'' @ C) =
          Some \<lparr>restype = Some (Scalar c_int), argtypes = Some (radius_search_argtypes np ''float32'')\<rparr> \<and>
        ''float32'' \<in> set (writeable_dtypes (radius_search_argtypes np ''float32'')))"
    using bspec [OF double_search_entries_registered_separately [OF ml fl] fam] by simp
  then have "funcs M ''flann_radius_search_byte'' =
       Some \<lparr>restype = Some (Scalar c_int),
             argtypes = Some (radius_search_argtypes ''uint8'' ''float32'')\<rparr> \<and>
     ''float32'' \<in> set (writeable_dtypes (radius_search_argtypes ''uint8'' ''float32''))"
    using bspec [OF conjunct2 [OF conjunct2 [OF conjunct2 [OF conjunct2 [OF conjunct2 [OF r]]]]] ty]
    by simp
  then show ?thesis using ml fl r by blast
qed

section \<open>Properties of ensure_2d_array\<close>

text \<open>A one-dimensional array that is not empty becomes one row, and an array of two
  dimensions (or of none, or more) is returned as it is.\<close>

lemma ensure_2d_array_nonempty:
  "shape arr = [n] \<Longrightarrow> 0 < n \<Longrightarrow>
     ensure_2d_array arr flags None = Inr (arr\<lparr>shape := [1, n]\<rparr>)"
  by (simp add: ensure_2d_array_def require_def reshape_def arr_size_def Let_def)

lemma ensure_2d_array_keeps:
  "length (shape arr) \<noteq> 1 \<Longrightarrow> ensure_2d_array arr flags None = Inr arr"
  by (simp add: ensure_2d_array_def require_def)

text \<open>
  C10 asks that every one-dimensional array of length \<open>n\<close> comes back with shape
  \<open>1 \<times> n\<close>. The code does not do that for \<open>n = 0\<close>: \<^verbatim>\<open>reshape(-1, 0)\<close> cannot resolve the
  unknown dimension, and the call raises \<^verbatim>\<open>ValueError\<close>.
\<close>

theorem ensure_2d_array_empty_raises:
  "ensure_2d_array \<lparr>shape = [0], elems = ([] :: int list)\<rparr> default_flags None = Inl ValueError"
  by (simp add: ensure_2d_array_def require_def reshape_def arr_size_def)

section \<open>Properties of the index registry\<close>

lemma serve_dead:
  fixes run :: "operation \<Rightarrow> 'i \<Rightarrow> 'e + 'r \<times> 'i"
  assumes "live r h = None" "h < next_handle r"
  shows "live (serve run r q) h = None \<and> h < next_handle (serve run r q)"
proof (cases q)
  case (Build idx) then show ?thesis using assms by (simp add: build_def)
next
  case (Load idx) then show ?thesis using assms by (simp add: build_def)
next
  case (Free g) then show ?thesis using assms by (simp add: free_def split: option.splits)
next
  case (Invoke opn g)
  then show ?thesis using assms
    by (cases "g = h") (auto simp: invoke_def split: option.splits sum.splits)
qed

lemma serve_all_dead:
  fixes run :: "operation \<Rightarrow> 'i \<Rightarrow> 'e + 'r \<times> 'i"
  shows "live r h = None \<Longrightarrow> h < next_handle r \<Longrightarrow> live (serve_all run r qs) h = None"
proof (induction qs arbitrary: r)
  case Nil then show ?case by simp
next
  case (Cons q qs)
  show ?case using Cons.IH [of "serve run r q"] serve_dead [OF Cons.prems, of run q] by simp
qed

lemma serve_below_next:
  fixes run :: "operation \<Rightarrow> 'i \<Rightarrow> 'e + 'r \<times> 'i"
  assumes "\<And>h. live r h \<noteq> None \<Longrightarrow> h < next_handle r" "live (serve run r q) h \<noteq> None"
  shows "h < next_handle (serve run r q)"
proof (cases q)
  case (Build idx)
  then show ?thesis using assms by (auto simp: build_def less_Suc_eq split: if_splits)
next
  case (Load idx)
  then show ?thesis using assms by (auto simp: build_def less_Suc_eq split: if_splits)
next
  case (Free g)
  then show ?thesis using assms by (auto simp: free_def split: option.splits if_splits)
next
  case (Invoke opn g)
  then show ?thesis using assms
    by (auto simp: invoke_def split: option.splits sum.splits if_splits)
qed

lemma serve_all_below_next:
  fixes run :: "operation \<Rightarrow> 'i \<Rightarrow> 'e + 'r \<times> 'i"
  shows "(\<And>h. live r h \<noteq> None \<Longrightarrow> h < next_handle r) \<Longrightarrow> live (serve_all run r qs) h \<noteq> None \<Longrightarrow>
     h < next_handle (serve_all run r qs)"
proof (induction qs arbitrary: r)
  case Nil then show ?case by simp
next
  case (Cons q qs)
  show ?case using Cons.IH [of "serve run r q"] serve_below_next [of r run q] Cons.prems by simp
qed

text \<open>A live handle is served.\<close>

lemma live_handle_is_served:
  "invoke stub_engine (serve_all stub_engine empty_registry [Build 7, Build 9]) UsedMemory 1 =
     Inr (9, serve_all stub_engine empty_registry [Build 7, Build 9])"
  by (simp add: invoke_def build_def empty_registry_def stub_engine_def)

text \<open>
  C8: in a registry that started empty, once a handle has been freed, whatever requests
  follow, every operation on that handle (search, add, remove, save, usedMemory) and
  freeing it again yield the handle error, and the registry is left as it was.
\<close>

theorem freed_handle_is_rejected:
  fixes run :: "operation \<Rightarrow> 'i \<Rightarrow> 'e + 'r \<times> 'i"
  assumes "(free (serve_all run empty_registry before) h :: 'e reg_error + 'i registry) = Inr r'"
  shows "invoke run (serve_all run r' after) opn h = Inl HandleError \<and>
         (free (serve_all run r' after) h :: 'e reg_error + 'i registry) = Inl HandleError \<and>
         serve run (serve_all run r' after) (Invoke opn h) = serve_all run r' after"
proof -
  let ?r = "serve_all run empty_registry before"
  from assms obtain idx where l: "live ?r h = Some idx"
    and r': "r' = ?r\<lparr>live := (live ?r)(h := None)\<rparr>"
    by (auto simp: free_def split: option.splits)
  have "live ?r h \<noteq> None" using l by simp
  then have "h < next_handle ?r"
    by (rule serve_all_below_next [rotated]) (simp add: empty_registry_def)
  then have "live r' h = None" "h < next_handle r'" using r' by simp_all
  then have d: "live (serve_all run r' after) h = None" by (rule serve_all_dead)
  then show ?thesis by (simp add: invoke_def free_def)
qed

text \<open>Witness for C8: two indexes built, the first freed, then another built and an
  operation on the second; a search on the freed handle 0 is rejected.\<close>

theorem freed_handle_is_rejected_witness:
  "\<exists>r'. (free (serve_all stub_engine empty_registry [Build 7, Build 9]) 0
           :: unit reg_error + nat registry) = Inr r' \<and>
     invoke stub_engine (serve_all stub_engine r' [Build 8, Invoke Add 1]) Search 0 = Inl HandleError \<and>
     (free (serve_all stub_engine r' [Build 8, Invoke Add 1]) 0
           :: unit reg_error + nat registry) = Inl HandleError \<and>
     serve stub_engine (serve_all stub_engine r' [Build 8, Invoke Add 1]) (Invoke Search 0) =
       serve_all stub_engine r' [Build 8, Invoke Add 1]"
proof -
  obtain r' where f: "(free (serve_all stub_engine empty_registry [Build 7, Build 9]) 0
      :: unit reg_error + nat registry) = Inr r'"
    by (simp add: free_def build_def empty_registry_def)
  show ?thesis
    using f freed_handle_is_rejected [OF f, of "[Build 8, Invoke Add 1]" Search] by blast
qed

end
